theory Spec2Isabelle
  imports Complex_Main
begin

section \<open>Values, errors and effects\<close>

text \<open>
  The exceptions the code can raise, by class. \<open>CsvError\<close> stands for whatever
  \<^verbatim>\<open>pd.read_csv\<close> raises when a table cannot be loaded.
\<close>

datatype error = KeyError | AttributeError | ValueError | TypeError | OverflowError | CsvError

text \<open>
  A cell of a loaded table is a Python \<^verbatim>\<open>str\<close>, or something else (a number, a missing
  value) on which \<^verbatim>\<open>.split\<close> raises \<^verbatim>\<open>AttributeError\<close>.
\<close>

datatype cell = Str string | NonStr

text \<open>
  A pandas Series is its list of (index label, value) pairs in row order. A table read
  with \<^verbatim>\<open>index_col\<close> is looked at through \<^verbatim>\<open>df[column]\<close> only: the column's
  Series, or \<open>None\<close> where pandas raises \<^verbatim>\<open>KeyError\<close>.
\<close>

type_synonym 'v series = "(string \<times> 'v) list"

type_synonym frame = "string \<Rightarrow> cell series option"

text \<open>
  A value of the label column, as iterating the Series gives it: a Python integer
  (unbounded) for a column of integer dtype, a float for a column of float dtype (a
  missing label makes the column float, with NaN), a string for any other.
\<close>

datatype 'f label_value = Int_label int | Float_label 'f | Str_label string

text \<open>
  The interaction table: the three columns the code reads (\<open>None\<close> when the table has no
  column of that name) and \<^verbatim>\<open>shape[0]\<close>.
\<close>

record 'f dti_frame =
  Compound_ID :: "string list option"
  Protein_ID :: "string list option"
  Label :: "'f label_value list option"
  shape0 :: nat

text \<open>
  What \<^verbatim>\<open>pd.read_csv(path)\<close> and \<^verbatim>\<open>pd.read_csv(path, index_col=col)\<close> return for each
  path; \<open>None\<close> when the call raises.
\<close>

record 'f csv_files =
  plain_csv :: "string \<Rightarrow> 'f dti_frame option"
  indexed_csv :: "string \<Rightarrow> string \<Rightarrow> frame option"

text \<open>What a run does besides returning: the lines it prints and the files it reads.\<close>

datatype event =
    Print_parsing string string
  | Print_positive int
  | Print_negative int
  | Print_summary string
  | Read_csv string

text \<open>A run: what it did, in order, and the value it returned or the exception it raised.\<close>

type_synonym ('e, 'a) run = "'e list \<times> (error + 'a)"

type_synonym 'a io = "(event, 'a) run"

definition and_then :: "error + 'a \<Rightarrow> ('a \<Rightarrow> error + 'b) \<Rightarrow> error + 'b" where
  "and_then m f = (case m of Inl e \<Rightarrow> Inl e | Inr x \<Rightarrow> f x)"

definition then_io :: "('e, 'a) run \<Rightarrow> ('a \<Rightarrow> ('e, 'b) run) \<Rightarrow> ('e, 'b) run" where
  "then_io m f =
     (case snd m of
        Inl e \<Rightarrow> (fst m, Inl e)
      | Inr x \<Rightarrow> (fst m @ fst (f x), snd (f x)))"

definition emit :: "'e \<Rightarrow> ('e, unit) run" where
  "emit ev = ([ev], Inr ())"

definition lift :: "error + 'a \<Rightarrow> ('e, 'a) run" where
  "lift r = ([], r)"

definition raising :: "error \<Rightarrow> 'a option \<Rightarrow> error + 'a" where
  "raising e v = (case v of None \<Rightarrow> Inl e | Some x \<Rightarrow> Inr x)"

text \<open>A loop or a \<^verbatim>\<open>map\<close> whose body may raise: the first exception ends it.\<close>

fun traverse :: "('a \<Rightarrow> error + 'b) \<Rightarrow> 'a list \<Rightarrow> error + 'b list" where
  "traverse f [] = Inr []"
| "traverse f (x # xs) =
     and_then (f x) (\<lambda>y. and_then (traverse f xs) (\<lambda>ys. Inr (y # ys)))"

section \<open>Strings\<close>

text \<open>\<^verbatim>\<open>s.split(sep)\<close> for a one-character separator: every occurrence splits.\<close>

fun str_split :: "char \<Rightarrow> string \<Rightarrow> string list" where
  "str_split sep [] = [[]]"
| "str_split sep (c # cs) =
     (if c = sep then [] # str_split sep cs
      else (case str_split sep cs of
              [] \<Rightarrow> [[c]]
            | w # ws \<Rightarrow> (c # w) # ws))"

definition TAB :: char where
  "TAB = CHR 0x09"

definition COMMA :: char where
  "COMMA = CHR '',''"

section \<open>parse\_data\<close>

text \<open>
  The conversion of a string to a float, as \<^verbatim>\<open>float(s)\<close> does it and as numpy does it
  when it fills a \<^verbatim>\<open>float64\<close> array from \<^verbatim>\<open>str\<close> objects, is Python's, not this
  program's: it is the parameter \<open>to_float\<close>, \<open>None\<close> where it raises \<^verbatim>\<open>ValueError\<close>.
\<close>

definition split_cell :: "cell \<Rightarrow> error + string list" where
  "split_cell fp = (case fp of Str s \<Rightarrow> Inr (str_split TAB s) | NonStr \<Rightarrow> Inl AttributeError)"

definition parse_cell :: "(string \<Rightarrow> 'f option) \<Rightarrow> cell \<Rightarrow> error + 'f list" where
  "parse_cell to_float seq =
     and_then (split_cell seq) (traverse (\<lambda>i. raising ValueError (to_float i)))"

text \<open>\<^verbatim>\<open>Series.map(f)\<close> applies \<open>f\<close> to the values in row order and keeps the index.\<close>

definition series_map :: "('a \<Rightarrow> error + 'b) \<Rightarrow> 'a series \<Rightarrow> error + 'b series" where
  "series_map f s = traverse (\<lambda>(k, v). and_then (f v) (\<lambda>w. Inr (k, w))) s"

text \<open>\<^verbatim>\<open>Series.to_dict()\<close>: of two rows with one index label the later one stays.\<close>

definition to_dict :: "'v series \<Rightarrow> (string \<rightharpoonup> 'v)" where
  "to_dict s = map_of (rev s)"

definition getitem :: "(string \<rightharpoonup> 'v) \<Rightarrow> string \<Rightarrow> error + 'v" where
  "getitem dic k = raising KeyError (dic k)"

text \<open>
  \<^verbatim>\<open>np.array(rows, dtype=np.float64)\<close>: rows of unequal length and an element that does
  not convert both raise \<^verbatim>\<open>ValueError\<close>.
\<close>

definition ragged :: "'a list list \<Rightarrow> bool" where
  "ragged rows = (\<not> list_all (\<lambda>r. length r = length (hd rows)) rows)"

definition np_array :: "('a \<Rightarrow> 'f option) \<Rightarrow> 'a list list \<Rightarrow> error + 'f list list" where
  "np_array conv rows =
     (if ragged rows then Inl ValueError
      else traverse (traverse (\<lambda>x. raising ValueError (conv x))) rows)"

definition drug_feature ::
  "(string \<Rightarrow> 'f option) \<Rightarrow> 'f dti_frame \<Rightarrow> frame \<Rightarrow> string \<Rightarrow> error + 'f list list" where
  "drug_feature to_float dti_df drug_df drug_vec =
     and_then (raising KeyError (drug_df drug_vec)) (\<lambda>column.
     and_then (series_map split_cell column) (\<lambda>splitted.
     and_then (raising KeyError (Compound_ID dti_df)) (\<lambda>drugs.
     and_then (traverse (getitem (to_dict splitted)) drugs) (\<lambda>rows.
     np_array to_float rows))))"

definition protein_feature ::
  "(string \<Rightarrow> 'f option) \<Rightarrow> 'f dti_frame \<Rightarrow> frame \<Rightarrow> string \<Rightarrow> error + 'f list list" where
  "protein_feature to_float dti_df protein_df prot_vec =
     and_then (raising KeyError (protein_df prot_vec)) (\<lambda>column.
     and_then (series_map (parse_cell to_float) column) (\<lambda>parsed.
     and_then (raising KeyError (Protein_ID dti_df)) (\<lambda>proteins.
     and_then (traverse (getitem (to_dict parsed)) proteins) (\<lambda>rows.
     np_array Some rows))))"

text \<open>The loop over \<^verbatim>\<open>drug_vecs\<close>; \<open>features\<close> is the list built so far.\<close>

fun feature_loop ::
  "(string \<Rightarrow> 'f option) \<Rightarrow> 'f dti_frame \<Rightarrow> frame \<Rightarrow> frame \<Rightarrow> string \<Rightarrow> string list \<Rightarrow>
   'f list list list \<Rightarrow> error + 'f list list list" where
  "feature_loop to_float dti_df drug_df protein_df prot_vec [] features = Inr features"
| "feature_loop to_float dti_df drug_df protein_df prot_vec (drug_vec # rest) features =
     and_then (drug_feature to_float dti_df drug_df drug_vec) (\<lambda>drug_feature.
     and_then (protein_feature to_float dti_df protein_df prot_vec) (\<lambda>protein_feature.
     feature_loop to_float dti_df drug_df protein_df prot_vec rest
       ((features @ [drug_feature]) @ [protein_feature])))"

record 'f parsed =
  features :: "'f list list list"
  label :: "'f label_value list"

definition read_csv :: "'f csv_files \<Rightarrow> string \<Rightarrow> 'f dti_frame io" where
  "read_csv files path = ([Read_csv path], raising CsvError (plain_csv files path))"

definition read_csv_indexed :: "'f csv_files \<Rightarrow> string \<Rightarrow> string \<Rightarrow> frame io" where
  "read_csv_indexed files path index_col =
     ([Read_csv path], raising CsvError (indexed_csv files path index_col))"

text \<open>
  The arithmetic of lines 52 and 53. A sum of integers is exact. What Python computes on
  floats is Python's: the sum of a column that is not all integers, the row count minus
  a float, and the integer that \<^verbatim>\<open>%d\<close> prints for a float (it truncates, and raises
  on NaN and on an infinity) are the parameters \<open>num\<close>.
\<close>

record 'f float_ops =
  float_sum :: "'f label_value list \<Rightarrow> error + 'f label_value"
  float_rsub :: "int \<Rightarrow> 'f \<Rightarrow> 'f"
  float_percent_d :: "'f \<Rightarrow> error + int"

fun all_ints :: "'f label_value list \<Rightarrow> int list option" where
  "all_ints [] = Some []"
| "all_ints (Int_label i # vs) = map_option ((#) i) (all_ints vs)"
| "all_ints (v # vs) = None"

definition py_sum :: "'f float_ops \<Rightarrow> 'f label_value list \<Rightarrow> error + 'f label_value" where
  "py_sum num vs =
     (case all_ints vs of
        Some ints \<Rightarrow> Inr (Int_label (sum_list ints))
      | None \<Rightarrow> float_sum num vs)"

text \<open>\<^verbatim>\<open>dti_df.shape[0] - s\<close>.\<close>

definition rows_minus :: "'f float_ops \<Rightarrow> nat \<Rightarrow> 'f label_value \<Rightarrow> error + 'f label_value" where
  "rows_minus num n s =
     (case s of
        Int_label i \<Rightarrow> Inr (Int_label (int n - i))
      | Float_label x \<Rightarrow> Inr (Float_label (float_rsub num (int n) x))
      | Str_label _ \<Rightarrow> Inl TypeError)"

text \<open>The integer that \<^verbatim>\<open>"%d" % v\<close> prints.\<close>

definition percent_d :: "'f float_ops \<Rightarrow> 'f label_value \<Rightarrow> error + int" where
  "percent_d num v =
     (case v of
        Int_label i \<Rightarrow> Inr i
      | Float_label x \<Rightarrow> float_percent_d num x
      | Str_label _ \<Rightarrow> Inl TypeError)"

definition parse_data ::
  "'f csv_files \<Rightarrow> (string \<Rightarrow> 'f option) \<Rightarrow> 'f float_ops \<Rightarrow> string \<Rightarrow> string \<Rightarrow> string \<Rightarrow>
   string list \<Rightarrow> int list option \<Rightarrow> string \<Rightarrow> int \<Rightarrow> bool \<Rightarrow> 'f parsed io" where
  "parse_data files to_float num dti_dir drug_dir protein_dir drug_vecs drug_lens prot_vec
     prot_len parsing =
     (if \<not> parsing then ([], Inr \<lparr>features = [], label = []\<rparr>)
      else
        then_io (emit (Print_parsing dti_dir drug_dir)) (\<lambda>_.
        then_io (read_csv files dti_dir) (\<lambda>dti_df.
        then_io (read_csv_indexed files drug_dir ''Compound_ID'') (\<lambda>drug_df.
        then_io (read_csv_indexed files protein_dir ''Protein_ID'') (\<lambda>protein_df.
        then_io (lift (feature_loop to_float dti_df drug_df protein_df prot_vec drug_vecs []))
          (\<lambda>features.
        then_io (lift (raising KeyError (Label dti_df))) (\<lambda>label.
        then_io (lift (and_then (py_sum num label) (percent_d num))) (\<lambda>positive.
        then_io (emit (Print_positive positive)) (\<lambda>_.
        then_io (lift (and_then (py_sum num label) (\<lambda>s.
                       and_then (rows_minus num (shape0 dti_df) s) (percent_d num))))
          (\<lambda>negative.
        then_io (emit (Print_negative negative)) (\<lambda>_.
        ([], Inr \<lparr>features = features, label = label\<rparr>))))))))))))"

section \<open>What the feature arrays are\<close>

text \<open>
  Stated on the tables, not on the code: \<open>vec\<close> is the decoded vector of \<open>ident\<close> in a
  column when the column's cell for \<open>ident\<close> (the last one, where the index repeats) is
  a string whose tab-separated pieces convert, one by one, to the elements of \<open>vec\<close>.
\<close>

definition decodes_to :: "(string \<Rightarrow> 'f option) \<Rightarrow> cell series \<Rightarrow> string \<Rightarrow> 'f list \<Rightarrow> bool" where
  "decodes_to to_float column ident vec =
     (case to_dict column ident of
        Some (Str s) \<Rightarrow> map to_float (str_split TAB s) = map Some vec
      | _ \<Rightarrow> False)"

text \<open>
  \<open>arr\<close> is the feature array of column \<open>vec\<close> of a table along an identifier column:
  row \<open>i\<close> of \<open>arr\<close> is the decoded vector of the \<open>i\<close>-th identifier.
\<close>

definition feature_array ::
  "(string \<Rightarrow> 'f option) \<Rightarrow> frame \<Rightarrow> string \<Rightarrow> string list option \<Rightarrow> 'f list list \<Rightarrow> bool" where
  "feature_array to_float df vec ids arr =
     (case df vec of
        None \<Rightarrow> False
      | Some column \<Rightarrow>
          (case ids of
             None \<Rightarrow> False
           | Some idents \<Rightarrow> list_all2 (decodes_to to_float column) idents arr))"

text \<open>
  A cell is undecodable when it is not a string, or one of its tab-separated pieces does
  not convert.
\<close>

definition undecodable :: "(string \<Rightarrow> 'f option) \<Rightarrow> cell \<Rightarrow> bool" where
  "undecodable to_float c =
     (case c of
        Str s \<Rightarrow> list_ex (\<lambda>w. to_float w = None) (str_split TAB s)
      | NonStr \<Rightarrow> True)"

text \<open>The tab-separated pieces of a cell.\<close>

definition pieces :: "cell \<Rightarrow> string list" where
  "pieces c = (case c of Str s \<Rightarrow> str_split TAB s | NonStr \<Rightarrow> [])"

text \<open>
  A column is rectangular along a list of identifiers when every identifier has a
  decodable cell and all these cells have as many pieces.
\<close>

definition rectangular :: "(string \<Rightarrow> 'f option) \<Rightarrow> cell series \<Rightarrow> string list \<Rightarrow> bool" where
  "rectangular to_float column ids =
     (list_all (\<lambda>i. case to_dict column i of
                       None \<Rightarrow> False
                     | Some c \<Rightarrow> \<not> undecodable to_float c \<and>
                         length (pieces c) = length (pieces (the (to_dict column (hd ids))))) ids)"

section \<open>Running the model\<close>

text \<open>
  To run the model on concrete tables, \<open>to_float\<close> is instantiated with the conversion
  restricted to unsigned decimal digit strings, where its value is the number written.
\<close>

fun index_of :: "'a \<Rightarrow> 'a list \<Rightarrow> nat option" where
  "index_of x [] = None"
| "index_of x (y # ys) = (if x = y then Some 0 else map_option Suc (index_of x ys))"

definition digit_value :: "char \<Rightarrow> nat option" where
  "digit_value c = index_of c ''0123456789''"

fun decimal_from :: "nat \<Rightarrow> string \<Rightarrow> nat option" where
  "decimal_from n [] = Some n"
| "decimal_from n (c # cs) =
     (case digit_value c of None \<Rightarrow> None | Some d \<Rightarrow> decimal_from (10 * n + d) cs)"

definition decimal :: "string \<Rightarrow> nat option" where
  "decimal s = (if s = [] then None else decimal_from 0 s)"

definition decimal_float :: "string \<Rightarrow> real option" where
  "decimal_float s = map_option real (decimal s)"

text \<open>
  And \<open>num\<close> with exact arithmetic on the reals, which is what float arithmetic gives on
  the values below: halves and small integers, whose sums and differences a float holds
  exactly.
\<close>

definition exact_value :: "real label_value \<Rightarrow> error + real" where
  "exact_value v =
     (case v of
        Int_label i \<Rightarrow> Inr (of_int i)
      | Float_label x \<Rightarrow> Inr x
      | Str_label _ \<Rightarrow> Inl TypeError)"

definition exact_num :: "real float_ops" where
  "exact_num =
     \<lparr>float_sum = (\<lambda>vs. and_then (traverse exact_value vs) (\<lambda>xs. Inr (Float_label (sum_list xs)))),
      float_rsub = (\<lambda>n x. of_int n - x),
      float_percent_d = (\<lambda>x. Inr (if 0 \<le> x then \<lfloor>x\<rfloor> else \<lceil>x\<rceil>))\<rparr>"

text \<open>
  A small data set: two interactions (A, X) and (B, X), two drug feature columns and one
  protein feature column.
\<close>

definition example_dti :: "real dti_frame" where
  "example_dti = \<lparr>Compound_ID = Some [''A'', ''B''], Protein_ID = Some [''X'', ''X''],
     Label = Some [Int_label 1, Int_label 0], shape0 = 2\<rparr>"

text \<open>The same interactions with the labels 0.5 and 1.0, a column of float dtype.\<close>

definition float_label_dti :: "real dti_frame" where
  "float_label_dti = example_dti\<lparr>Label := Some [Float_label (1 / 2), Float_label 1]\<rparr>"

definition example_drugs :: frame where
  "example_drugs = map_of
     [(''fp1'', [(''A'', Str (''1'' @ [TAB] @ ''2'')), (''B'', Str (''3'' @ [TAB] @ ''4''))]),
      (''fp2'', [(''A'', Str (''5'' @ [TAB] @ ''6'')), (''B'', Str (''7'' @ [TAB] @ ''8''))])]"

definition example_proteins :: frame where
  "example_proteins = map_of [(''seq'', [(''X'', Str (''7'' @ [TAB] @ ''8'' @ [TAB] @ ''9''))])]"

definition example_files :: "real csv_files" where
  "example_files =
     \<lparr>plain_csv = (\<lambda>path.
        if path = ''dti.csv'' then Some example_dti
        else if path = ''dti_float.csv'' then Some float_label_dti
        else None),
      indexed_csv = (\<lambda>path index_col.
        if path = ''drug.csv'' \<and> index_col = ''Compound_ID'' then Some example_drugs
        else if path = ''protein.csv'' \<and> index_col = ''Protein_ID'' then Some example_proteins
        else None)\<rparr>"

text \<open>
  A second data set: drug B, which no interaction references, has the feature string
  \<^verbatim>\<open>x\<close>; the three interaction tables hold one row each, (A, X), (Z, X) and (A, Y),
  where the drug table has no drug Z and the protein table no protein Y.
\<close>

definition stray_dti :: "string \<Rightarrow> string \<Rightarrow> real dti_frame" where
  "stray_dti drug protein =
     \<lparr>Compound_ID = Some [drug], Protein_ID = Some [protein], Label = Some [Int_label 1],
      shape0 = 1\<rparr>"

definition stray_fp :: "cell series" where
  "stray_fp = [(''A'', Str (''1'' @ [TAB] @ ''2'')), (''B'', Str ''x'')]"

definition stray_seq :: "cell series" where
  "stray_seq = [(''X'', Str (''7'' @ [TAB] @ ''8''))]"

definition stray_drugs :: frame where
  "stray_drugs = map_of [(''fp'', stray_fp)]"

definition stray_proteins :: frame where
  "stray_proteins = map_of [(''seq'', stray_seq)]"

definition stray_files :: "real csv_files" where
  "stray_files =
     \<lparr>plain_csv = (\<lambda>path.
        if path = ''dti.csv'' then Some (stray_dti ''A'' ''X'')
        else if path = ''dti_z.csv'' then Some (stray_dti ''Z'' ''X'')
        else if path = ''dti_y.csv'' then Some (stray_dti ''A'' ''Y'')
        else None),
      indexed_csv = (\<lambda>path index_col.
        if path = ''drug.csv'' \<and> index_col = ''Compound_ID'' then Some stray_drugs
        else if path = ''protein.csv'' \<and> index_col = ''Protein_ID'' then Some stray_proteins
        else None)\<rparr>"

section \<open>get\_args\<close>

text \<open>
  What the user wrote on the command line, each value already converted by the
  argument's \<^verbatim>\<open>type\<close>: the three positional paths, and for every option \<open>None\<close> when it
  was omitted. \<^verbatim>\<open>--parsing-train\<close> has \<^verbatim>\<open>type=bool\<close>, so its string is kept and
  \<^verbatim>\<open>bool\<close> is applied below.
\<close>

record 'f cmdline =
  c_dti_dir :: string
  c_drug_dir :: string
  c_protein_dir :: string
  c_parsing_train :: "string option"
  c_test_name :: "string list option"
  c_test_dti_dir :: "string list option"
  c_test_drug_dir :: "string list option"
  c_test_protein_dir :: "string list option"
  c_with_label :: "string option"
  c_drug_vecs :: "string list option"
  c_drug_lens :: "int list option"
  c_drug_layers_list :: "string list option"
  c_prot_vec :: "string option"
  c_prot_len :: "int option"
  c_protein_layers_list :: "string list option"
  c_fc_layers_list :: "string list option"
  c_learning_rate :: "'f option"
  c_n_epoch :: "int option"
  c_activation :: "string option"
  c_dropout :: "'f option"
  c_batch_size :: "int option"
  c_decay :: "'f option"
  c_validation :: bool
  c_predict :: bool
  c_model_output :: "string option"
  c_output :: "string option"

text \<open>The namespace \<^verbatim>\<open>parser.parse_args()\<close> returns; \<open>None\<close> is Python's \<^verbatim>\<open>None\<close>.\<close>

record 'f args =
  arg_dti_dir :: string
  arg_drug_dir :: string
  arg_protein_dir :: string
  arg_parsing_train :: bool
  arg_test_name :: "string list option"
  arg_test_dti_dir :: "string list option"
  arg_test_drug_dir :: "string list option"
  arg_test_protein_dir :: "string list option"
  arg_with_label :: "string option"
  arg_drug_vecs :: "string list"
  arg_drug_lens :: "int list option"
  arg_drug_layers_list :: "string list option"
  arg_prot_vec :: string
  arg_prot_len :: int
  arg_protein_layers_list :: "string list option"
  arg_fc_layers_list :: "string list option"
  arg_learning_rate :: 'f
  arg_n_epoch :: int
  arg_activation :: "string option"
  arg_dropout :: 'f
  arg_batch_size :: int
  arg_decay :: 'f
  arg_validation :: bool
  arg_predict :: bool
  arg_model_output :: "string option"
  arg_output :: "string option"

definition or_default :: "'a \<Rightarrow> 'a option \<Rightarrow> 'a" where
  "or_default d v = (case v of None \<Rightarrow> d | Some x \<Rightarrow> x)"

text \<open>
  Each field is the supplied value or the argument's \<^verbatim>\<open>default\<close>; an option declared
  without one defaults to \<^verbatim>\<open>None\<close>. The default of \<^verbatim>\<open>--drug-vecs\<close> is the empty
  string, over which the loop of \<open>parse_data\<close> runs no more than over an empty list.
  \<open>float_literal\<close> gives the float that a Python literal denotes.
\<close>

definition get_args :: "(string \<Rightarrow> 'f) \<Rightarrow> 'f cmdline \<Rightarrow> 'f args" where
  "get_args float_literal cl =
     \<lparr>arg_dti_dir = c_dti_dir cl,
      arg_drug_dir = c_drug_dir cl,
      arg_protein_dir = c_protein_dir cl,
      arg_parsing_train = (case c_parsing_train cl of None \<Rightarrow> True | Some s \<Rightarrow> s \<noteq> []),
      arg_test_name = c_test_name cl,
      arg_test_dti_dir = c_test_dti_dir cl,
      arg_test_drug_dir = c_test_drug_dir cl,
      arg_test_protein_dir = c_test_protein_dir cl,
      arg_with_label = c_with_label cl,
      arg_drug_vecs = or_default [] (c_drug_vecs cl),
      arg_drug_lens = c_drug_lens cl,
      arg_drug_layers_list = c_drug_layers_list cl,
      arg_prot_vec = or_default [] (c_prot_vec cl),
      arg_prot_len = or_default 2500 (c_prot_len cl),
      arg_protein_layers_list = c_protein_layers_list cl,
      arg_fc_layers_list = c_fc_layers_list cl,
      arg_learning_rate = or_default (float_literal ''1e-4'') (c_learning_rate cl),
      arg_n_epoch = or_default 10 (c_n_epoch cl),
      arg_activation = c_activation cl,
      arg_dropout = or_default (float_literal ''0.2'') (c_dropout cl),
      arg_batch_size = or_default 32 (c_batch_size cl),
      arg_decay = or_default (float_literal ''0.0'') (c_decay cl),
      arg_validation = c_validation cl,
      arg_predict = c_predict cl,
      arg_model_output = c_model_output cl,
      arg_output = c_output cl\<rparr>"

section \<open>get\_params\<close>

text \<open>The dictionaries \<^verbatim>\<open>train_params\<close>, \<^verbatim>\<open>type_params\<close> and \<^verbatim>\<open>model_params\<close>;
  the last is updated with \<^verbatim>\<open>type_params\<close>, so it extends it.\<close>

record train_params =
  trp_n_epoch :: int
  trp_batch_size :: int

record type_params =
  tp_drug_vecs :: "string list"
  tp_drug_lens :: "int list option"
  tp_prot_vec :: string
  tp_prot_len :: int

record 'f model_params = type_params +
  mp_drug_layers_list :: "int list list"
  mp_protein_layers_list :: "int list list"
  mp_fc_layers_list :: "int list list"
  mp_learning_rate :: 'f
  mp_decay :: 'f
  mp_activation :: "string option"
  mp_dropout :: 'f
  mp_model_output :: "string option"

text \<open>
  \<^verbatim>\<open>list(map(int, s.split(',')))\<close>; the conversion \<^verbatim>\<open>int(s)\<close> is Python's and is the
  parameter \<open>to_int\<close>, \<open>None\<close> where it raises \<^verbatim>\<open>ValueError\<close>.
\<close>

definition layers :: "(string \<Rightarrow> int option) \<Rightarrow> string \<Rightarrow> error + int list" where
  "layers to_int s = traverse (\<lambda>w. raising ValueError (to_int w)) (str_split COMMA s)"

text \<open>The list comprehension over an argument; iterating \<^verbatim>\<open>None\<close> raises \<^verbatim>\<open>TypeError\<close>.\<close>

definition layers_list ::
  "(string \<Rightarrow> int option) \<Rightarrow> string list option \<Rightarrow> error + int list list" where
  "layers_list to_int arg =
     (case arg of None \<Rightarrow> Inl TypeError | Some strs \<Rightarrow> traverse (layers to_int) strs)"

text \<open>\<^verbatim>\<open>zip\<close> of the four arguments: it raises \<^verbatim>\<open>TypeError\<close> when one of them is \<^verbatim>\<open>None\<close>
  and stops at the end of the shortest.\<close>

definition zip4 ::
  "'a list option \<Rightarrow> 'b list option \<Rightarrow> 'c list option \<Rightarrow> 'd list option \<Rightarrow>
   error + ('a \<times> 'b \<times> 'c \<times> 'd) list" where
  "zip4 ws xs ys zs =
     and_then (raising TypeError ws) (\<lambda>ws.
     and_then (raising TypeError xs) (\<lambda>xs.
     and_then (raising TypeError ys) (\<lambda>ys.
     and_then (raising TypeError zs) (\<lambda>zs.
     Inr (zip ws (zip xs (zip ys zs)))))))"

text \<open>
  A Python dictionary, as the list of its items in insertion order. Storing under a key
  it has replaces the value where the key stands.
\<close>

fun dict_set :: "('k \<times> 'v) list \<Rightarrow> 'k \<Rightarrow> 'v \<Rightarrow> ('k \<times> 'v) list" where
  "dict_set [] k v = [(k, v)]"
| "dict_set ((k', v') # items) k v =
     (if k' = k then (k, v) # items else (k', v') # dict_set items k v)"

text \<open>The dictionary comprehension over \<^verbatim>\<open>test_sets\<close>; \<open>test_dic\<close> is what is built so far.\<close>

fun test_loop ::
  "'f csv_files \<Rightarrow> (string \<Rightarrow> 'f option) \<Rightarrow> 'f float_ops \<Rightarrow> type_params \<Rightarrow>
   (string \<times> string \<times> string \<times> string) list \<Rightarrow> (string \<times> 'f parsed) list \<Rightarrow>
   (string \<times> 'f parsed) list io" where
  "test_loop files to_float num type_params [] test_dic = ([], Inr test_dic)"
| "test_loop files to_float num type_params ((test_name, test_dti, test_drug, test_protein) # rest)
     test_dic =
     then_io (parse_data files to_float num test_dti test_drug test_protein
                (tp_drug_vecs type_params) (tp_drug_lens type_params)
                (tp_prot_vec type_params) (tp_prot_len type_params) True) (\<lambda>parsed.
     test_loop files to_float num type_params rest (dict_set test_dic test_name parsed))"

text \<open>
  \<^verbatim>\<open>print_parameter_summary\<close> only prints; the event keeps its \<^verbatim>\<open>target\<close>.
\<close>

definition print_parameter_summary :: "string \<Rightarrow> unit io" where
  "print_parameter_summary target = emit (Print_summary target)"

definition get_params ::
  "'f csv_files \<Rightarrow> (string \<Rightarrow> 'f option) \<Rightarrow> 'f float_ops \<Rightarrow> (string \<Rightarrow> int option) \<Rightarrow>
   'f args \<Rightarrow>
   ('f parsed \<times> (string \<times> 'f parsed) list \<times> train_params \<times> type_params \<times>
    'f model_params \<times> string option) io" where
  "get_params files to_float num to_int args =
     (let train_params = \<lparr>trp_n_epoch = arg_n_epoch args, trp_batch_size = arg_batch_size args\<rparr>;
          type_params = \<lparr>tp_drug_vecs = arg_drug_vecs args, tp_drug_lens = arg_drug_lens args,
                         tp_prot_vec = arg_prot_vec args, tp_prot_len = arg_prot_len args\<rparr>
      in
        then_io (lift (layers_list to_int (arg_drug_layers_list args))) (\<lambda>drug_layers_list.
        then_io (lift (layers_list to_int (arg_protein_layers_list args))) (\<lambda>protein_layers_list.
        then_io (lift (layers_list to_int (arg_fc_layers_list args))) (\<lambda>fc_layers_list.
        let model_params =
              \<lparr>tp_drug_vecs = arg_drug_vecs args, tp_drug_lens = arg_drug_lens args,
               tp_prot_vec = arg_prot_vec args, tp_prot_len = arg_prot_len args,
               mp_drug_layers_list = drug_layers_list,
               mp_protein_layers_list = protein_layers_list,
               mp_fc_layers_list = fc_layers_list,
               mp_learning_rate = arg_learning_rate args,
               mp_decay = arg_decay args,
               mp_activation = arg_activation args,
               mp_dropout = arg_dropout args,
               mp_model_output = arg_model_output args\<rparr>;
            output_file = arg_output args
        in
        then_io (print_parameter_summary ''Model parameters'') (\<lambda>_.
        then_io (parse_data files to_float num (arg_dti_dir args) (arg_drug_dir args)
                   (arg_protein_dir args) (tp_drug_vecs type_params) (tp_drug_lens type_params)
                   (tp_prot_vec type_params) (tp_prot_len type_params) (arg_parsing_train args))
          (\<lambda>train_dic.
        then_io (lift (zip4 (arg_test_name args) (arg_test_dti_dir args)
                   (arg_test_drug_dir args) (arg_test_protein_dir args))) (\<lambda>test_sets.
        then_io (test_loop files to_float num type_params test_sets []) (\<lambda>test_dic.
        ([], Inr (train_dic, test_dic, train_params, type_params, model_params,
                  output_file))))))))))"

section \<open>What the layer lists are, and a command line to run\<close>

text \<open>
  Stated on the string: \<open>ns\<close> are the layer sizes of \<open>s\<close> when the comma-separated pieces
  of \<open>s\<close> convert, one by one, to the elements of \<open>ns\<close>.
\<close>

definition parses_to :: "(string \<Rightarrow> int option) \<Rightarrow> string \<Rightarrow> int list \<Rightarrow> bool" where
  "parses_to to_int s ns = (map to_int (str_split COMMA s) = map Some ns)"

text \<open>Storing a list of items into a dictionary, one after the other.\<close>

definition store_all :: "('k \<times> 'v) list \<Rightarrow> ('k \<times> 'v) list \<Rightarrow> ('k \<times> 'v) list" where
  "store_all kvs d = fold (\<lambda>kv d. dict_set d (fst kv) (snd kv)) kvs d"

text \<open>\<open>to_int\<close> restricted to unsigned decimal digit strings.\<close>

definition decimal_int :: "string \<Rightarrow> int option" where
  "decimal_int s = map_option int (decimal s)"

text \<open>
  A command line over the example tables: three test names against two interaction and
  two protein paths, and no value for the options that have a default.
\<close>

definition example_literal :: "string \<Rightarrow> real" where
  "example_literal s = (if s = ''1e-4'' then 1 / 10000 else if s = ''0.2'' then 1 / 5 else 0)"

definition example_cmdline :: "real cmdline" where
  "example_cmdline =
     \<lparr>c_dti_dir = ''dti.csv'', c_drug_dir = ''drug.csv'', c_protein_dir = ''protein.csv'',
      c_parsing_train = None,
      c_test_name = Some [''t1'', ''t2'', ''t3''],
      c_test_dti_dir = Some [''dti.csv'', ''dti.csv''],
      c_test_drug_dir = Some [''drug.csv'', ''drug.csv'', ''drug.csv''],
      c_test_protein_dir = Some [''protein.csv'', ''protein.csv''],
      c_with_label = None,
      c_drug_vecs = Some [''fp1''], c_drug_lens = None,
      c_drug_layers_list = Some [''100,50,10''],
      c_prot_vec = Some ''seq'', c_prot_len = None,
      c_protein_layers_list = Some [''64''],
      c_fc_layers_list = Some [''32,16''],
      c_learning_rate = None, c_n_epoch = None, c_activation = None, c_dropout = None,
      c_batch_size = None, c_decay = None, c_validation = False, c_predict = True,
      c_model_output = None, c_output = None\<rparr>"

definition example_parsed :: "real parsed" where
  "example_parsed =
     \<lparr>features = [[[1, 2], [3, 4]], [[7, 8, 9], [7, 8, 9]]], label = [Int_label 1, Int_label 0]\<rparr>"

section \<open>run\_prediction\<close>

text \<open>
  What \<^verbatim>\<open>predict\<close> returns for one test set. An array with one entry per interaction row,
  of shape \<^verbatim>\<open>(n,)\<close> or \<^verbatim>\<open>(n, 1)\<close>, is the list of its entries.
\<close>

record 'f prediction =
  pr_predicted :: "'f list"
  pr_label :: "'f list"

text \<open>
  \<^verbatim>\<open>np.squeeze\<close> drops every axis of length one: an array of one row becomes a
  zero-dimensional array, which pandas takes for a scalar; any other stays a vector.
\<close>

datatype 'a squeezed = Scalar 'a | Vector "'a list"

definition squeeze :: "'a list \<Rightarrow> 'a squeezed" where
  "squeeze a = (case a of [x] \<Rightarrow> Scalar x | _ \<Rightarrow> Vector a)"

text \<open>
  A DataFrame over a default row index: the number of rows and the columns, in order;
  \<open>None\<close> is a missing value. Column labels are left out of the frames: the loop's
  \<^verbatim>\<open>concat\<close> discards them (\<^verbatim>\<open>ignore_index=True\<close>), and the two labels set in one
  iteration differ, so each assignment adds a column.
\<close>

type_synonym 'f column = "'f option list"

type_synonym 'f data_frame = "nat \<times> 'f column list"

text \<open>
  \<^verbatim>\<open>df[key] = value\<close> for a new key. A scalar is repeated along the rows the frame
  has. A vector gives a frame without rows its own length, the columns already there
  being filled with missing values, and must otherwise have as many entries as the frame
  has rows.
\<close>

definition set_column :: "'f data_frame \<Rightarrow> 'f squeezed \<Rightarrow> error + 'f data_frame" where
  "set_column df v =
     (case v of
        Scalar x \<Rightarrow> Inr (fst df, snd df @ [replicate (fst df) (Some x)])
      | Vector xs \<Rightarrow>
          if fst df = 0 \<and> xs \<noteq> [] then
            Inr (length xs, map (\<lambda>c. replicate (length xs) None) (snd df) @ [map Some xs])
          else if length xs \<noteq> fst df then Inl ValueError
          else Inr (fst df, snd df @ [map Some xs]))"

definition pad :: "nat \<Rightarrow> 'f column \<Rightarrow> 'f column" where
  "pad n c = c @ replicate (n - length c) None"

text \<open>
  \<^verbatim>\<open>pd.concat([a, b], ignore_index=True, axis=1)\<close>: the columns of both, side by side,
  over the longer of the two row indexes.
\<close>

definition concat_columns :: "'f data_frame \<Rightarrow> 'f data_frame \<Rightarrow> 'f data_frame" where
  "concat_columns a b =
     (let n = max (fst a) (fst b) in (n, map (pad n) (snd a) @ map (pad n) (snd b)))"

text \<open>The loop over \<^verbatim>\<open>test_predicted\<close>, a dictionary in insertion order.\<close>

fun result_loop ::
  "(string \<times> 'f prediction) list \<Rightarrow> 'f data_frame \<Rightarrow> (string \<times> string) list \<Rightarrow>
   error + 'f data_frame \<times> (string \<times> string) list" where
  "result_loop [] result_df result_columns = Inr (result_df, result_columns)"
| "result_loop ((dataset, p) # rest) result_df result_columns =
     and_then (set_column (0, []) (squeeze (pr_predicted p))) (\<lambda>temp_df.
     and_then (set_column temp_df (squeeze (pr_label p))) (\<lambda>temp_df.
     result_loop rest (concat_columns result_df temp_df)
       ((result_columns @ [(dataset, ''predicted'')]) @ [(dataset, ''label'')])))"

text \<open>What \<^verbatim>\<open>run_prediction\<close> does besides returning: the lines it prints and the table it
  writes, each column under its two-level label.\<close>

datatype 'f effect =
    Printed string
  | To_csv string "((string \<times> string) \<times> 'f column) list"

text \<open>
  \<^verbatim>\<open>result_df.columns = pd.MultiIndex.from_tuples(result_columns)\<close>: \<^verbatim>\<open>from_tuples\<close> raises
  \<^verbatim>\<open>TypeError\<close> on an empty list, and the assignment \<^verbatim>\<open>ValueError\<close> when the number of
  labels is not the number of columns.
\<close>

definition set_labels ::
  "'f data_frame \<Rightarrow> (string \<times> string) list \<Rightarrow> error + ((string \<times> string) \<times> 'f column) list" where
  "set_labels result_df result_columns =
     (if result_columns = [] then Inl TypeError
      else if length result_columns \<noteq> length (snd result_df) then Inl ValueError
      else Inr (zip result_columns (snd result_df)))"

text \<open>Lines 209 to 229; \<^verbatim>\<open>if output_file\<close> holds for a string that is not empty.\<close>

definition write_results ::
  "(string \<times> 'f prediction) list \<Rightarrow> string option \<Rightarrow> ('f effect, unit) run" where
  "write_results test_predicted output_file =
     then_io (lift (result_loop test_predicted (0, []) [])) (\<lambda>(result_df, result_columns).
     then_io (emit (Printed (''Prediction is completed.'' @ [CHR 0x0A]))) (\<lambda>_.
     (case output_file of
        None \<Rightarrow> ([], Inr ())
      | Some path \<Rightarrow>
          if path = [] then ([], Inr ())
          else
            then_io (emit (Printed (''save to '' @ path))) (\<lambda>_.
            then_io (lift (set_labels result_df result_columns)) (\<lambda>table.
            emit (To_csv path table))))))"

text \<open>
  The model object is not this program's: \<open>fit\<close> and \<open>predict\<close> are parameters, \<open>predict\<close>
  being what the fitted model returns for the test sets.
\<close>

definition run_prediction ::
  "('f parsed \<Rightarrow> train_params \<Rightarrow> error + unit) \<Rightarrow>
   ((string \<times> 'f parsed) list \<Rightarrow> error + (string \<times> 'f prediction) list) \<Rightarrow>
   train_params \<Rightarrow> string option \<Rightarrow> 'f parsed \<Rightarrow> (string \<times> 'f parsed) list \<Rightarrow>
   ('f effect, unit) run" where
  "run_prediction fit predict train_params output_file train_dic test_dic =
     then_io (emit (Printed ''Prediction'')) (\<lambda>_.
     then_io (lift (fit train_dic train_params)) (\<lambda>_.
     then_io (lift (predict test_dic)) (\<lambda>test_predicted.
     write_results test_predicted output_file)))"

text \<open>
  Stated on the predictions, not on the code: a test set is well shaped when its two
  arrays have one length, other than one; the wide table has, per test set and in the
  order of the test sets, the column of the predicted values and the column of the
  labels, each in row order and filled with missing values up to the longest test set.
\<close>

definition well_shaped :: "'f prediction \<Rightarrow> bool" where
  "well_shaped p = (length (pr_predicted p) = length (pr_label p) \<and> length (pr_predicted p) \<noteq> 1)"

definition longest :: "(string \<times> 'f prediction) list \<Rightarrow> nat" where
  "longest test_predicted = fold max (map (\<lambda>(name, p). length (pr_predicted p)) test_predicted) 0"

definition wide_table ::
  "(string \<times> 'f prediction) list \<Rightarrow> ((string \<times> string) \<times> 'f column) list" where
  "wide_table test_predicted =
     concat (map (\<lambda>(name, p).
       [((name, ''predicted''), pad (longest test_predicted) (map Some (pr_predicted p))),
        ((name, ''label''), pad (longest test_predicted) (map Some (pr_label p)))])
       test_predicted)"

section \<open>Lemmas on the building blocks\<close>

lemma and_then_Inl [simp]: "and_then (Inl e) f = Inl e"
  by (simp add: and_then_def)

lemma and_then_Inr [simp]: "and_then (Inr x) f = f x"
  by (simp add: and_then_def)

lemma and_then_eq_Inr: "and_then m f = Inr y \<longleftrightarrow> (\<exists>x. m = Inr x \<and> f x = Inr y)"
  by (cases m) simp_all

lemma raising_eq_Inr [simp]: "raising e v = Inr x \<longleftrightarrow> v = Some x"
  by (cases v) (simp_all add: raising_def)

lemma raising_Some [simp]: "raising e (Some x) = Inr x"
  by (simp add: raising_def)

lemma raising_None [simp]: "raising e None = Inl e"
  by (simp add: raising_def)

lemma snd_then_io: "snd (then_io m f) = and_then (snd m) (\<lambda>x. snd (f x))"
  by (cases "snd m") (simp_all add: then_io_def)

lemma traverse_eq_Inr:
  "traverse f xs = Inr ys \<longleftrightarrow> list_all2 (\<lambda>x y. f x = Inr y) xs ys"
proof (induction xs arbitrary: ys)
  case Nil
  show ?case by auto
next
  case (Cons x xs)
  show ?case
    by (cases ys) (auto simp: and_then_eq_Inr Cons.IH)
qed

lemma series_map_eq_Inr:
  "series_map f s = Inr s' \<longleftrightarrow>
   list_all2 (\<lambda>x y. fst y = fst x \<and> f (snd x) = Inr (snd y)) s s'"
  unfolding series_map_def traverse_eq_Inr
  by (rule arg_cong [where f = "\<lambda>P. list_all2 P s s'"])
    (auto simp: fun_eq_iff and_then_eq_Inr)

lemma map_of_related:
  "list_all2 (\<lambda>x y. fst y = fst x \<and> R (snd x) (snd y)) s s' \<Longrightarrow>
   rel_option R (map_of s k) (map_of s' k)"
  by (induction s s' rule: list_all2_induct) (auto split: prod.splits)

lemma to_dict_related:
  assumes "list_all2 (\<lambda>x y. fst y = fst x \<and> R (snd x) (snd y)) s s'"
  shows "rel_option R (to_dict s k) (to_dict s' k)"
  unfolding to_dict_def
  by (rule map_of_related) (simp add: assms)

lemma traverse_raising_eq_Inr:
  "traverse (\<lambda>x. raising e (conv x)) xs = Inr ys \<longleftrightarrow> map conv xs = map Some ys"
proof (induction xs arbitrary: ys)
  case Nil
  show ?case by auto
next
  case (Cons x xs)
  show ?case
    by (cases ys) (auto simp: and_then_eq_Inr Cons.IH)
qed

lemma np_array_eq_Inr:
  "np_array conv rows = Inr arr \<longleftrightarrow>
   \<not> ragged rows \<and> list_all2 (\<lambda>row vec. map conv row = map Some vec) rows arr"
  by (simp add: np_array_def traverse_eq_Inr [where f = "traverse _"] traverse_raising_eq_Inr)

lemma np_array_Some_eq_Inr: "np_array Some rows = Inr arr \<longleftrightarrow> \<not> ragged rows \<and> arr = rows"
  by (auto simp: np_array_eq_Inr list_all2_conv_all_nth list_eq_iff_nth_eq)

lemma split_cell_eq_Inr: "split_cell c = Inr ws \<longleftrightarrow> (\<exists>s. c = Str s \<and> ws = str_split TAB s)"
  by (cases c) (auto simp: split_cell_def)

lemma parse_cell_eq_Inr:
  "parse_cell to_float c = Inr vec \<longleftrightarrow>
   (\<exists>s. c = Str s \<and> map to_float (str_split TAB s) = map Some vec)"
  by (auto simp: parse_cell_def and_then_eq_Inr split_cell_eq_Inr traverse_raising_eq_Inr)

lemma drug_feature_rows:
  assumes "drug_feature to_float dti_df drug_df drug_vec = Inr arr"
  shows "\<exists>column drugs. drug_df drug_vec = Some column \<and> Compound_ID dti_df = Some drugs \<and>
           list_all2 (decodes_to to_float column) drugs arr"
proof -
  from assms obtain column splitted drugs rows where
    col: "drug_df drug_vec = Some column" and
    spl: "series_map split_cell column = Inr splitted" and
    ids: "Compound_ID dti_df = Some drugs" and
    rows: "traverse (getitem (to_dict splitted)) drugs = Inr rows" and
    arr: "np_array to_float rows = Inr arr"
    by (auto simp: drug_feature_def and_then_eq_Inr)
  from spl have rel: "\<And>k. rel_option (\<lambda>c ws. split_cell c = Inr ws)
      (to_dict column k) (to_dict splitted k)"
    by (intro to_dict_related) (simp add: series_map_eq_Inr)
  from rows have r1: "list_all2 (\<lambda>d row. to_dict splitted d = Some row) drugs rows"
    by (simp add: traverse_eq_Inr getitem_def)
  from arr have r2: "list_all2 (\<lambda>row vec. map to_float row = map Some vec) rows arr"
    by (simp add: np_array_eq_Inr)
  have "list_all2 (decodes_to to_float column) drugs arr"
  proof (rule list_all2_all_nthI)
    show "length drugs = length arr"
      using r1 r2 by (simp add: list_all2_lengthD)
  next
    fix i assume i: "i < length drugs"
    have a: "to_dict splitted (drugs ! i) = Some (rows ! i)"
      by (rule list_all2_nthD [OF r1 i])
    from r1 i have "i < length rows"
      by (simp add: list_all2_lengthD)
    then have b: "map to_float (rows ! i) = map Some (arr ! i)"
      by (rule list_all2_nthD [OF r2])
    from rel [of "drugs ! i"] a obtain c where
      "to_dict column (drugs ! i) = Some c" "split_cell c = Inr (rows ! i)"
      by (auto simp: option_rel_Some2)
    with b show "decodes_to to_float column (drugs ! i) (arr ! i)"
      by (auto simp: decodes_to_def split_cell_eq_Inr)
  qed
  with col ids show ?thesis by blast
qed

lemma protein_feature_rows:
  assumes "protein_feature to_float dti_df protein_df prot_vec = Inr arr"
  shows "\<exists>column proteins. protein_df prot_vec = Some column \<and>
           Protein_ID dti_df = Some proteins \<and>
           list_all2 (decodes_to to_float column) proteins arr"
proof -
  from assms obtain column parsed proteins rows where
    col: "protein_df prot_vec = Some column" and
    spl: "series_map (parse_cell to_float) column = Inr parsed" and
    ids: "Protein_ID dti_df = Some proteins" and
    rows: "traverse (getitem (to_dict parsed)) proteins = Inr rows" and
    arr: "np_array Some rows = Inr arr"
    by (auto simp: protein_feature_def and_then_eq_Inr)
  from spl have rel: "\<And>k. rel_option (\<lambda>c vec. parse_cell to_float c = Inr vec)
      (to_dict column k) (to_dict parsed k)"
    by (intro to_dict_related) (simp add: series_map_eq_Inr)
  from rows arr have r1: "list_all2 (\<lambda>p vec. to_dict parsed p = Some vec) proteins arr"
    by (simp add: traverse_eq_Inr getitem_def np_array_Some_eq_Inr)
  have "list_all2 (decodes_to to_float column) proteins arr"
  proof (rule list_all2_all_nthI)
    show "length proteins = length arr"
      using r1 by (simp add: list_all2_lengthD)
  next
    fix i assume i: "i < length proteins"
    have a: "to_dict parsed (proteins ! i) = Some (arr ! i)"
      by (rule list_all2_nthD [OF r1 i])
    from rel [of "proteins ! i"] a obtain c where
      "to_dict column (proteins ! i) = Some c" "parse_cell to_float c = Inr (arr ! i)"
      by (auto simp: option_rel_Some2)
    then show "decodes_to to_float column (proteins ! i) (arr ! i)"
      by (auto simp: decodes_to_def parse_cell_eq_Inr)
  qed
  with col ids show ?thesis by blast
qed

lemma feature_loop_result:
  "feature_loop to_float dti_df drug_df protein_df prot_vec drug_vecs acc = Inr fs \<Longrightarrow>
   \<exists>rest. fs = acc @ rest \<and> length rest = 2 * length drug_vecs \<and>
     (\<forall>k<length drug_vecs.
        drug_feature to_float dti_df drug_df (drug_vecs ! k) = Inr (rest ! (2 * k)) \<and>
        protein_feature to_float dti_df protein_df prot_vec = Inr (rest ! (2 * k + 1)))"
proof (induction drug_vecs arbitrary: acc)
  case Nil
  then show ?case by simp
next
  case (Cons v vs)
  from Cons.prems obtain d p where
    d: "drug_feature to_float dti_df drug_df v = Inr d" and
    p: "protein_feature to_float dti_df protein_df prot_vec = Inr p" and
    loop: "feature_loop to_float dti_df drug_df protein_df prot_vec vs ((acc @ [d]) @ [p]) = Inr fs"
    by (auto simp: and_then_eq_Inr)
  from Cons.IH [OF loop] obtain rest where
    fs: "fs = ((acc @ [d]) @ [p]) @ rest" and
    len: "length rest = 2 * length vs" and
    each: "\<And>k. k < length vs \<Longrightarrow>
        drug_feature to_float dti_df drug_df (vs ! k) = Inr (rest ! (2 * k)) \<and>
        protein_feature to_float dti_df protein_df prot_vec = Inr (rest ! (2 * k + 1))"
    by blast
  have "\<forall>k<length (v # vs).
        drug_feature to_float dti_df drug_df ((v # vs) ! k) = Inr ((d # p # rest) ! (2 * k)) \<and>
        protein_feature to_float dti_df protein_df prot_vec = Inr ((d # p # rest) ! (2 * k + 1))"
  proof (intro allI impI)
    fix k assume "k < length (v # vs)"
    then show "drug_feature to_float dti_df drug_df ((v # vs) ! k) = Inr ((d # p # rest) ! (2 * k)) \<and>
        protein_feature to_float dti_df protein_df prot_vec = Inr ((d # p # rest) ! (2 * k + 1))"
      using d p each by (cases k) simp_all
  qed
  moreover have "fs = acc @ (d # p # rest)" "length (d # p # rest) = 2 * length (v # vs)"
    using fs len by simp_all
  ultimately show ?case by blast
qed

lemma then_io_Inr [simp]: "then_io (out, Inr x) f = (out @ fst (f x), snd (f x))"
  by (simp add: then_io_def)

lemma then_io_Inl [simp]: "then_io (out, Inl e) f = (out, Inl e)"
  by (simp add: then_io_def)

lemma all_ints_Int_labels [simp]: "all_ints (map Int_label ints) = Some ints"
  by (induction ints) simp_all

lemma py_sum_Int_labels [simp]:
  "py_sum num (map Int_label ints) = Inr (Int_label (sum_list ints))"
  by (simp add: py_sum_def)

lemma parse_data_run:
  assumes "snd (parse_data files to_float num dti_dir drug_dir protein_dir drug_vecs drug_lens
             prot_vec prot_len True) = Inr r"
  shows "\<exists>dti_df drug_df protein_df positive negative.
     plain_csv files dti_dir = Some dti_df \<and>
     indexed_csv files drug_dir ''Compound_ID'' = Some drug_df \<and>
     indexed_csv files protein_dir ''Protein_ID'' = Some protein_df \<and>
     feature_loop to_float dti_df drug_df protein_df prot_vec drug_vecs [] = Inr (features r) \<and>
     Label dti_df = Some (label r) \<and>
     and_then (py_sum num (label r)) (percent_d num) = Inr positive \<and>
     and_then (py_sum num (label r))
       (\<lambda>s. and_then (rows_minus num (shape0 dti_df) s) (percent_d num)) = Inr negative \<and>
     fst (parse_data files to_float num dti_dir drug_dir protein_dir drug_vecs drug_lens
             prot_vec prot_len True) =
       [Print_parsing dti_dir drug_dir, Read_csv dti_dir, Read_csv drug_dir, Read_csv protein_dir,
        Print_positive positive, Print_negative negative]"
proof -
  from assms obtain dti_df drug_df protein_df fs lab total rest positive negative where
    a: "plain_csv files dti_dir = Some dti_df"
       "indexed_csv files drug_dir ''Compound_ID'' = Some drug_df"
       "indexed_csv files protein_dir ''Protein_ID'' = Some protein_df"
       "feature_loop to_float dti_df drug_df protein_df prot_vec drug_vecs [] = Inr fs"
       "Label dti_df = Some lab"
       "py_sum num lab = Inr total" "percent_d num total = Inr positive"
       "rows_minus num (shape0 dti_df) total = Inr rest" "percent_d num rest = Inr negative"
       and r: "r = \<lparr>features = fs, label = lab\<rparr>"
    by (auto simp: parse_data_def snd_then_io and_then_eq_Inr read_csv_def read_csv_indexed_def
        emit_def lift_def)
  then show ?thesis
    by (simp add: parse_data_def read_csv_def read_csv_indexed_def emit_def lift_def)
qed

lemmas example_defs = example_files_def example_dti_def float_label_dti_def example_drugs_def
  example_proteins_def
  parse_data_def read_csv_def read_csv_indexed_def emit_def lift_def
  drug_feature_def protein_feature_def series_map_def split_cell_def parse_cell_def
  to_dict_def getitem_def np_array_def ragged_def TAB_def
  decimal_float_def decimal_def digit_value_def
  py_sum_def rows_minus_def percent_d_def exact_num_def exact_value_def

lemma example_run:
  "parse_data example_files decimal_float exact_num ''dti.csv'' ''drug.csv'' ''protein.csv''
     [''fp1'', ''fp2''] None ''seq'' 2500 True =
   ([Print_parsing ''dti.csv'' ''drug.csv'', Read_csv ''dti.csv'', Read_csv ''drug.csv'',
     Read_csv ''protein.csv'', Print_positive 1, Print_negative 1],
    Inr \<lparr>features = [[[1, 2], [3, 4]], [[7, 8, 9], [7, 8, 9]], [[5, 6], [7, 8]], [[7, 8, 9], [7, 8, 9]]],
         label = [Int_label 1, Int_label 0]\<rparr>)"
  by (simp add: example_defs)

lemma decodes_to_not_undecodable:
  assumes "decodes_to to_float column d vec"
  shows "\<exists>c. to_dict column d = Some c \<and> \<not> undecodable to_float c"
proof -
  from assms obtain s where s: "to_dict column d = Some (Str s)"
    and m: "map to_float (str_split TAB s) = map Some vec"
    by (auto simp: decodes_to_def split: option.splits cell.splits)
  have "\<not> list_ex (\<lambda>w. to_float w = None) (str_split TAB s)"
  proof
    assume "list_ex (\<lambda>w. to_float w = None) (str_split TAB s)"
    then have "None \<in> set (map to_float (str_split TAB s))"
      by (force simp: list_ex_iff)
    with m show False by auto
  qed
  with s show ?thesis by (simp add: undecodable_def)
qed

lemma to_dict_eq_None: "to_dict s k = None \<longleftrightarrow> k \<notin> fst ` set s"
  by (simp add: to_dict_def map_of_eq_None_iff)

lemma series_map_cells:
  assumes "series_map f s = Inr s'" and "c \<in> snd ` set s"
  shows "\<exists>w. f c = Inr w"
proof -
  from assms(1) have "list_all2 (\<lambda>x y. fst y = fst x \<and> f (snd x) = Inr (snd y)) s s'"
    by (simp add: series_map_eq_Inr)
  then have "\<forall>x\<in>set s. \<exists>y. f (snd x) = Inr (snd y)"
    by (induction rule: list_all2_induct) auto
  with assms(2) show ?thesis by auto
qed

lemma drug_feature_cells:
  assumes "drug_feature to_float dti_df drug_df drug_vec = Inr arr"
    and "drug_df drug_vec = Some column"
  shows "NonStr \<notin> snd ` set column"
proof
  assume "NonStr \<in> snd ` set column"
  moreover from assms obtain splitted where "series_map split_cell column = Inr splitted"
    by (auto simp: drug_feature_def and_then_eq_Inr)
  ultimately have "\<exists>w. split_cell NonStr = Inr w"
    by (rule series_map_cells [rotated])
  then show False by (simp add: split_cell_def)
qed

lemma protein_feature_cells:
  assumes "protein_feature to_float dti_df protein_df prot_vec = Inr arr"
    and "protein_df prot_vec = Some column" and "c \<in> snd ` set column"
  shows "\<not> undecodable to_float c"
proof -
  from assms(1,2) obtain parsed where "series_map (parse_cell to_float) column = Inr parsed"
    by (auto simp: protein_feature_def and_then_eq_Inr)
  from series_map_cells [OF this assms(3)] obtain s vec where
    "c = Str s" "map to_float (str_split TAB s) = map Some vec"
    by (auto simp: parse_cell_eq_Inr)
  then have "decodes_to to_float [(''k'', c)] ''k'' vec"
    by (simp add: decodes_to_def to_dict_def)
  from decodes_to_not_undecodable [OF this] show ?thesis
    by (simp add: to_dict_def)
qed

lemmas run_defs = parse_data_def read_csv_def read_csv_indexed_def emit_def lift_def
  drug_feature_def protein_feature_def series_map_def split_cell_def parse_cell_def
  to_dict_def getitem_def np_array_def ragged_def TAB_def
  decimal_float_def decimal_def digit_value_def
  py_sum_def rows_minus_def percent_d_def exact_num_def exact_value_def

lemmas stray_defs = stray_files_def stray_dti_def stray_drugs_def stray_proteins_def
  stray_fp_def stray_seq_def

subsection \<open>When the parser returns\<close>

lemma traverse_returns:
  "(\<And>x. x \<in> set xs \<Longrightarrow> \<exists>y. f x = Inr y) \<Longrightarrow> \<exists>ys. traverse f xs = Inr ys"
proof (induction xs)
  case Nil
  show ?case by simp
next
  case (Cons x xs)
  from Cons.prems [of x] obtain y where "f x = Inr y" by auto
  moreover from Cons obtain ys where "traverse f xs = Inr ys" by auto
  ultimately show ?case by simp
qed

lemma series_map_returns:
  "(\<And>c. c \<in> snd ` set s \<Longrightarrow> \<exists>w. f c = Inr w) \<Longrightarrow> \<exists>s'. series_map f s = Inr s'"
  unfolding series_map_def
  by (rule traverse_returns) (force simp: and_then_eq_Inr split: prod.splits)

lemma not_undecodable:
  "\<not> undecodable to_float c \<longleftrightarrow>
   (\<exists>s vec. c = Str s \<and> map to_float (str_split TAB s) = map Some vec)"
proof (cases c)
  case (Str s)
  have "(\<not> list_ex (\<lambda>w. to_float w = None) ws) \<longleftrightarrow> (\<exists>vec. map to_float ws = map Some vec)"
    for ws :: "string list"
  proof (induction ws)
    case Nil
    show ?case by simp
  next
    case (Cons w ws)
    show ?case
    proof (cases "to_float w")
      case None
      then show ?thesis by (auto simp: map_eq_Cons_conv)
    next
      case (Some v)
      then show ?thesis
        using Cons.IH by (auto simp: map_eq_Cons_conv) (metis list.simps(9))
    qed
  qed
  with Str show ?thesis by (simp add: undecodable_def)
next
  case NonStr
  then show ?thesis by (simp add: undecodable_def)
qed

lemma list_all2_exists:
  "(\<And>x. x \<in> set xs \<Longrightarrow> \<exists>y. P x y) \<Longrightarrow> \<exists>ys. list_all2 P xs ys"
proof (induction xs)
  case Nil
  show ?case by simp
next
  case (Cons x xs)
  from Cons.prems [of x] obtain y where "P x y" by auto
  moreover from Cons obtain ys where "list_all2 P xs ys" by auto
  ultimately have "list_all2 P (x # xs) (y # ys)" by simp
  then show ?case by blast
qed

lemma not_ragged:
  assumes "\<And>r. r \<in> set rows \<Longrightarrow> length r = n"
  shows "\<not> ragged rows"
proof (cases rows)
  case Nil
  then show ?thesis by (simp add: ragged_def)
next
  case (Cons r rs)
  with assms have "length (hd rows) = n" by simp
  with assms show ?thesis by (simp add: ragged_def list_all_iff)
qed

lemma rectangular_cell:
  assumes "rectangular to_float column ids" and "i \<in> set ids"
  obtains s vec where "to_dict column i = Some (Str s)"
    and "map to_float (str_split TAB s) = map Some vec"
    and "length (str_split TAB s) = length (pieces (the (to_dict column (hd ids))))"
proof -
  from assms obtain c where c: "to_dict column i = Some c" "\<not> undecodable to_float c"
    "length (pieces c) = length (pieces (the (to_dict column (hd ids))))"
    by (auto simp: rectangular_def list_all_iff split: option.splits)
  from c(2) obtain s vec where "c = Str s" "map to_float (str_split TAB s) = map Some vec"
    by (auto simp: not_undecodable)
  with c that show thesis by (simp add: pieces_def)
qed

lemma drug_feature_returns:
  assumes col: "drug_df drug_vec = Some column" and str: "NonStr \<notin> snd ` set column"
    and ids: "Compound_ID dti_df = Some drugs" and rect: "rectangular to_float column drugs"
  shows "\<exists>arr. drug_feature to_float dti_df drug_df drug_vec = Inr arr"
proof -
  let ?n = "length (pieces (the (to_dict column (hd drugs))))"
  have "\<exists>w. split_cell c = Inr w" if "c \<in> snd ` set column" for c
    using that str by (cases c) (auto simp: split_cell_def)
  then have "\<exists>splitted. series_map split_cell column = Inr splitted"
    by (rule series_map_returns)
  then obtain splitted where spl: "series_map split_cell column = Inr splitted" ..
  then have rel: "\<And>k. rel_option (\<lambda>c ws. split_cell c = Inr ws)
      (to_dict column k) (to_dict splitted k)"
    by (intro to_dict_related) (simp add: series_map_eq_Inr)
  have look: "\<exists>row. to_dict splitted d = Some row \<and> length row = ?n \<and>
      (\<exists>vec. map to_float row = map Some vec)" if "d \<in> set drugs" for d
  proof -
    from rect that obtain s vec where "to_dict column d = Some (Str s)"
      "map to_float (str_split TAB s) = map Some vec" "length (str_split TAB s) = ?n"
      by (rule rectangular_cell)
    with rel [of d] show ?thesis
      by (auto simp: option_rel_Some1 split_cell_eq_Inr)
  qed
  then have "\<exists>rows. list_all2 (\<lambda>d row. to_dict splitted d = Some row \<and>
      length row = ?n \<and> (\<exists>vec. map to_float row = map Some vec)) drugs rows"
    by (rule list_all2_exists)
  then obtain rows where rows: "list_all2 (\<lambda>d row. to_dict splitted d = Some row \<and>
      length row = ?n \<and> (\<exists>vec. map to_float row = map Some vec)) drugs rows" ..
  then have tr: "traverse (getitem (to_dict splitted)) drugs = Inr rows"
    by (simp add: traverse_eq_Inr getitem_def list_all2_conv_all_nth)
  from rows have each: "length r = ?n \<and> (\<exists>vec. map to_float r = map Some vec)"
    if "r \<in> set rows" for r
    using that by (auto simp: in_set_conv_nth list_all2_conv_all_nth)
  then have "\<not> ragged rows"
    by (intro not_ragged [where n = ?n]) simp
  moreover have "\<exists>arr. list_all2 (\<lambda>row vec. map to_float row = map Some vec) rows arr"
    by (rule list_all2_exists) (simp add: each)
  then obtain arr where
    "list_all2 (\<lambda>row vec. map to_float row = map Some vec) rows arr" ..
  ultimately have "np_array to_float rows = Inr arr"
    by (simp add: np_array_eq_Inr)
  with col spl ids tr show ?thesis
    by (simp add: drug_feature_def)
qed

lemma protein_feature_returns:
  assumes col: "protein_df prot_vec = Some column"
    and cells: "\<And>c. c \<in> snd ` set column \<Longrightarrow> \<not> undecodable to_float c"
    and ids: "Protein_ID dti_df = Some proteins" and rect: "rectangular to_float column proteins"
  shows "\<exists>arr. protein_feature to_float dti_df protein_df prot_vec = Inr arr"
proof -
  let ?n = "length (pieces (the (to_dict column (hd proteins))))"
  have "\<exists>w. parse_cell to_float c = Inr w" if "c \<in> snd ` set column" for c
    using cells [OF that] by (auto simp: not_undecodable parse_cell_eq_Inr)
  then have "\<exists>parsed. series_map (parse_cell to_float) column = Inr parsed"
    by (rule series_map_returns)
  then obtain parsed where spl: "series_map (parse_cell to_float) column = Inr parsed" ..
  then have rel: "\<And>k. rel_option (\<lambda>c vec. parse_cell to_float c = Inr vec)
      (to_dict column k) (to_dict parsed k)"
    by (intro to_dict_related) (simp add: series_map_eq_Inr)
  have look: "\<exists>row. to_dict parsed p = Some row \<and> length row = ?n" if "p \<in> set proteins" for p
  proof -
    from rect that obtain s vec where s: "to_dict column p = Some (Str s)"
      "map to_float (str_split TAB s) = map Some vec" "length (str_split TAB s) = ?n"
      by (rule rectangular_cell)
    with rel [of p] obtain row where row: "to_dict parsed p = Some row"
      "map to_float (str_split TAB s) = map Some row"
      by (auto simp: option_rel_Some1 parse_cell_eq_Inr)
    from row(2) have "length (str_split TAB s) = length row"
      by (metis length_map)
    with row s show ?thesis by simp
  qed
  then have "\<exists>rows. list_all2 (\<lambda>p row. to_dict parsed p = Some row \<and>
      length row = ?n) proteins rows"
    by (rule list_all2_exists)
  then obtain rows where rows: "list_all2 (\<lambda>p row. to_dict parsed p = Some row \<and>
      length row = ?n) proteins rows" ..
  then have tr: "traverse (getitem (to_dict parsed)) proteins = Inr rows"
    by (simp add: traverse_eq_Inr getitem_def list_all2_conv_all_nth)
  from rows have "length r = ?n" if "r \<in> set rows" for r
    using that by (auto simp: in_set_conv_nth list_all2_conv_all_nth)
  then have "\<not> ragged rows"
    by (intro not_ragged [where n = ?n]) simp
  then have "np_array Some rows = Inr rows"
    by (simp add: np_array_Some_eq_Inr)
  with col spl ids tr show ?thesis
    by (simp add: protein_feature_def)
qed

lemma feature_loop_returns:
  assumes "\<And>v. v \<in> set drug_vecs \<Longrightarrow> \<exists>arr. drug_feature to_float dti_df drug_df v = Inr arr"
    and "\<exists>arr. protein_feature to_float dti_df protein_df prot_vec = Inr arr"
  shows "\<exists>fs. feature_loop to_float dti_df drug_df protein_df prot_vec drug_vecs acc = Inr fs"
  using assms
proof (induction drug_vecs arbitrary: acc)
  case Nil
  show ?case by simp
next
  case (Cons v vs)
  from Cons.prems(1) [of v] obtain d where d: "drug_feature to_float dti_df drug_df v = Inr d"
    by auto
  from Cons.prems(2) obtain p where p: "protein_feature to_float dti_df protein_df prot_vec = Inr p"
    by auto
  from Cons.IH [of "(acc @ [d]) @ [p]"] Cons.prems
  obtain fs where "feature_loop to_float dti_df drug_df protein_df prot_vec vs
      ((acc @ [d]) @ [p]) = Inr fs"
    by auto
  with d p show ?case by simp
qed

subsection \<open>get\_params\<close>

lemmas params_defs = get_params_def get_args_def or_default_def layers_list_def layers_def
  zip4_def print_parameter_summary_def COMMA_def decimal_int_def decimal_def digit_value_def
  example_literal_def example_cmdline_def emit_def lift_def

lemma example_test_run:
  "parse_data example_files decimal_float exact_num ''dti.csv'' ''drug.csv'' ''protein.csv''
     [''fp1''] None ''seq'' 2500 True =
   ([Print_parsing ''dti.csv'' ''drug.csv'', Read_csv ''dti.csv'', Read_csv ''drug.csv'',
     Read_csv ''protein.csv'', Print_positive 1, Print_negative 1], Inr example_parsed)"
  by (simp add: example_defs example_parsed_def)

lemma example_params_run:
  "snd (get_params example_files decimal_float exact_num decimal_int
     (get_args example_literal example_cmdline)) =
   Inr (example_parsed, [(''t1'', example_parsed), (''t2'', example_parsed)],
        \<lparr>trp_n_epoch = 10, trp_batch_size = 32\<rparr>,
        \<lparr>tp_drug_vecs = [''fp1''], tp_drug_lens = None, tp_prot_vec = ''seq'', tp_prot_len = 2500\<rparr>,
        \<lparr>tp_drug_vecs = [''fp1''], tp_drug_lens = None, tp_prot_vec = ''seq'', tp_prot_len = 2500,
         mp_drug_layers_list = [[100, 50, 10]], mp_protein_layers_list = [[64]],
         mp_fc_layers_list = [[32, 16]], mp_learning_rate = 1 / 10000, mp_decay = 0,
         mp_activation = None, mp_dropout = 1 / 5, mp_model_output = None\<rparr>,
        None)"
  by (simp add: params_defs example_test_run)

lemma layers_eq_Inr: "layers to_int s = Inr ns \<longleftrightarrow> parses_to to_int s ns"
  by (simp add: layers_def parses_to_def traverse_raising_eq_Inr)

lemma layers_list_eq_Inr:
  "layers_list to_int arg = Inr nss \<longleftrightarrow>
   (\<exists>strs. arg = Some strs \<and> list_all2 (parses_to to_int) strs nss)"
  by (cases arg) (simp_all add: layers_list_def traverse_eq_Inr layers_eq_Inr)

lemma zip4_eq_Inr:
  "zip4 ws xs ys zs = Inr sets \<longleftrightarrow>
   (\<exists>ws' xs' ys' zs'. ws = Some ws' \<and> xs = Some xs' \<and> ys = Some ys' \<and> zs = Some zs' \<and>
      sets = zip ws' (zip xs' (zip ys' zs')))"
  by (auto simp: zip4_def and_then_eq_Inr)

lemma get_params_run:
  assumes "snd (get_params files to_float num to_int args) =
     Inr (train_dic, test_dic, train_params, type_params, model_params, output_file)"
  shows "layers_list to_int (arg_drug_layers_list args) = Inr (mp_drug_layers_list model_params)"
    and "layers_list to_int (arg_protein_layers_list args) =
           Inr (mp_protein_layers_list model_params)"
    and "layers_list to_int (arg_fc_layers_list args) = Inr (mp_fc_layers_list model_params)"
    and "type_params = \<lparr>tp_drug_vecs = arg_drug_vecs args, tp_drug_lens = arg_drug_lens args,
           tp_prot_vec = arg_prot_vec args, tp_prot_len = arg_prot_len args\<rparr>"
    and "snd (parse_data files to_float num (arg_dti_dir args) (arg_drug_dir args)
           (arg_protein_dir args) (arg_drug_vecs args) (arg_drug_lens args) (arg_prot_vec args)
           (arg_prot_len args) (arg_parsing_train args)) = Inr train_dic"
    and "\<exists>test_sets. zip4 (arg_test_name args) (arg_test_dti_dir args) (arg_test_drug_dir args)
           (arg_test_protein_dir args) = Inr test_sets \<and>
           snd (test_loop files to_float num type_params test_sets []) = Inr test_dic"
  using assms
  by (auto simp: get_params_def Let_def snd_then_io and_then_eq_Inr lift_def
      print_parameter_summary_def emit_def)

lemma map_of_dict_set: "map_of (dict_set d k v) = (map_of d)(k \<mapsto> v)"
  by (induction d k v rule: dict_set.induct) (auto simp: fun_eq_iff)

lemma keys_dict_set:
  "map fst (dict_set d k v) = (if k \<in> fst ` set d then map fst d else map fst d @ [k])"
  by (induction d k v rule: dict_set.induct) auto

lemma dict_set_fresh: "k \<notin> fst ` set d \<Longrightarrow> dict_set d k v = d @ [(k, v)]"
  by (induction d k v rule: dict_set.induct) auto

lemma store_all_Nil [simp]: "store_all [] d = d"
  by (simp add: store_all_def)

lemma store_all_Cons [simp]: "store_all (kv # kvs) d = store_all kvs (dict_set d (fst kv) (snd kv))"
  by (simp add: store_all_def)

lemma key_set_dict_set: "fst ` set (dict_set d k v) = insert k (fst ` set d)"
  by (induction d k v rule: dict_set.induct) auto

lemma keys_store_all: "fst ` set (store_all kvs d) = fst ` set d \<union> fst ` set kvs"
proof (induction kvs arbitrary: d)
  case Nil
  show ?case by simp
next
  case (Cons kv kvs)
  show ?case
    by (simp add: Cons.IH key_set_dict_set)
qed

lemma distinct_store_all: "distinct (map fst d) \<Longrightarrow> distinct (map fst (store_all kvs d))"
  by (induction kvs arbitrary: d) (auto simp: keys_dict_set)

lemma map_of_store_all: "map_of (store_all kvs d) = map_of d ++ map_of (rev kvs)"
proof (induction kvs arbitrary: d)
  case Nil
  show ?case by simp
next
  case (Cons kv kvs)
  show ?case
    by (cases kv) (simp add: Cons.IH map_of_dict_set map_add_def fun_eq_iff split: option.splits)
qed

lemma store_all_fresh:
  "distinct (map fst kvs) \<Longrightarrow> set (map fst kvs) \<inter> set (map fst d) = {} \<Longrightarrow>
   store_all kvs d = d @ kvs"
proof (induction kvs arbitrary: d)
  case Nil
  show ?case by simp
next
  case (Cons kv kvs)
  from Cons.prems have fresh: "fst kv \<notin> fst ` set d"
    by auto
  from Cons.prems have "store_all kvs (d @ [kv]) = (d @ [kv]) @ kvs"
    by (intro Cons.IH) auto
  with fresh show ?case
    by (simp add: dict_set_fresh)
qed

lemma map_of_rev_last:
  "i < length kvs \<Longrightarrow> (\<And>j. j < length kvs \<Longrightarrow> i < j \<Longrightarrow> fst (kvs ! j) \<noteq> fst (kvs ! i)) \<Longrightarrow>
   map_of (rev kvs) (fst (kvs ! i)) = Some (snd (kvs ! i))"
proof (induction kvs rule: rev_induct)
  case Nil
  then show ?case by simp
next
  case (snoc x xs)
  show ?case
  proof (cases "i = length xs")
    case True
    then show ?thesis by simp
  next
    case False
    with snoc.prems(1) have i: "i < length xs" by simp
    from snoc.prems(2) [of "length xs"] i have neq: "fst x \<noteq> fst (xs ! i)"
      by (simp add: nth_append)
    have "map_of (rev xs) (fst (xs ! i)) = Some (snd (xs ! i))"
    proof (rule snoc.IH [OF i])
      fix j assume "j < length xs" "i < j"
      with snoc.prems(2) [of j] i show "fst (xs ! j) \<noteq> fst (xs ! i)"
        by (simp add: nth_append)
    qed
    with neq i show ?thesis
      by (simp add: nth_append)
  qed
qed

lemma test_loop_result:
  "snd (test_loop files to_float num tp sets dic) = Inr dic' \<Longrightarrow>
   \<exists>ps. list_all2 (\<lambda>s p. snd (parse_data files to_float num (fst (snd s)) (fst (snd (snd s)))
            (snd (snd (snd s))) (tp_drug_vecs tp) (tp_drug_lens tp) (tp_prot_vec tp)
            (tp_prot_len tp) True) = Inr p) sets ps \<and>
        dic' = store_all (zip (map fst sets) ps) dic"
proof (induction sets arbitrary: dic)
  case Nil
  then show ?case by simp
next
  case (Cons s sets)
  obtain name dti drug prot where s: "s = (name, dti, drug, prot)"
    by (cases s) auto
  from Cons.prems s obtain p where
    p: "snd (parse_data files to_float num dti drug prot (tp_drug_vecs tp) (tp_drug_lens tp)
          (tp_prot_vec tp) (tp_prot_len tp) True) = Inr p" and
    rest: "snd (test_loop files to_float num tp sets (dict_set dic name p)) = Inr dic'"
    by (auto simp: snd_then_io and_then_eq_Inr)
  from Cons.IH [OF rest] obtain ps where
    "list_all2 (\<lambda>s p. snd (parse_data files to_float num (fst (snd s)) (fst (snd (snd s)))
            (snd (snd (snd s))) (tp_drug_vecs tp) (tp_drug_lens tp) (tp_prot_vec tp)
            (tp_prot_len tp) True) = Inr p) sets ps"
    "dic' = store_all (zip (map fst sets) ps) (dict_set dic name p)"
    by blast
  with p s have "list_all2 (\<lambda>s p. snd (parse_data files to_float num (fst (snd s)) (fst (snd (snd s)))
            (snd (snd (snd s))) (tp_drug_vecs tp) (tp_drug_lens tp) (tp_prot_vec tp)
            (tp_prot_len tp) True) = Inr p) (s # sets) (p # ps) \<and>
        dic' = store_all (zip (map fst (s # sets)) (p # ps)) dic"
    by simp
  then show ?case by blast
qed

section \<open>Parsing disabled\<close>

text \<open>
  C3. With parsing disabled, whatever the other arguments are, \<open>parse_data\<close> returns
  empty features and an empty label, and its trace is empty: it prints nothing and
  reads no file.
\<close>

theorem parse_data_parsing_disabled:
  "parse_data files to_float num dti_dir drug_dir protein_dir drug_vecs drug_lens prot_vec prot_len
     False = ([], Inr \<lparr>features = [], label = []\<rparr>)"
  by (simp add: parse_data_def)

section \<open>The features list\<close>

text \<open>
  \<open>parse_data\<close> returns when the three tables load, the interaction table has its three
  columns, every requested drug column holds strings only and is rectangular along the
  drug identifiers, the protein column is decodable throughout and rectangular along the
  protein identifiers, and the two counts of the label column can be printed, as they can
  for integer labels.
\<close>

lemma parse_data_returns:
  assumes files: "plain_csv files dti_dir = Some dti_df"
      "indexed_csv files drug_dir ''Compound_ID'' = Some drug_df"
      "indexed_csv files protein_dir ''Protein_ID'' = Some protein_df"
    and dti: "Compound_ID dti_df = Some drugs" "Protein_ID dti_df = Some proteins"
      "Label dti_df = Some labels"
    and counts: "(\<exists>ints. labels = map Int_label ints) \<or>
      (\<exists>positive negative.
         and_then (py_sum num labels) (percent_d num) = Inr positive \<and>
         and_then (py_sum num labels)
           (\<lambda>s. and_then (rows_minus num (shape0 dti_df) s) (percent_d num)) = Inr negative)"
    and drug: "\<And>v. v \<in> set drug_vecs \<Longrightarrow>
      \<exists>column. drug_df v = Some column \<and> NonStr \<notin> snd ` set column \<and>
        rectangular to_float column drugs"
    and protein: "protein_df prot_vec = Some pcolumn"
      "\<And>c. c \<in> snd ` set pcolumn \<Longrightarrow> \<not> undecodable to_float c"
      "rectangular to_float pcolumn proteins"
  shows "\<exists>fs. snd (parse_data files to_float num dti_dir drug_dir protein_dir drug_vecs drug_lens
           prot_vec prot_len True) = Inr \<lparr>features = fs, label = labels\<rparr>"
proof -
  have "\<exists>arr. drug_feature to_float dti_df drug_df v = Inr arr" if "v \<in> set drug_vecs" for v
    using drug [OF that] dti(1) by (auto intro: drug_feature_returns)
  moreover have "\<exists>arr. protein_feature to_float dti_df protein_df prot_vec = Inr arr"
    using protein dti(2) by (intro protein_feature_returns) auto
  ultimately have "\<exists>fs. feature_loop to_float dti_df drug_df protein_df prot_vec drug_vecs []
      = Inr fs"
    by (rule feature_loop_returns)
  then obtain fs where
    loop: "feature_loop to_float dti_df drug_df protein_df prot_vec drug_vecs [] = Inr fs" ..
  from counts obtain positive negative where
    "and_then (py_sum num labels) (percent_d num) = Inr positive"
    "and_then (py_sum num labels)
       (\<lambda>s. and_then (rows_minus num (shape0 dti_df) s) (percent_d num)) = Inr negative"
    by (auto simp: rows_minus_def percent_d_def)
  with loop files dti(3) show ?thesis
    by (simp add: parse_data_def read_csv_def read_csv_indexed_def emit_def lift_def)
qed

text \<open>
  C1. When \<open>parse_data\<close> returns, its features list has two entries per requested drug
  feature name, in the order of the names: entry \<open>2k\<close> is the drug feature array of the
  \<open>k\<close>-th name (row \<open>i\<close> is the decoded vector of the drug of interaction row \<open>i\<close>),
  entry \<open>2k + 1\<close> the protein feature array.
\<close>

theorem parse_data_features_interleaved:
  assumes "snd (parse_data files to_float num dti_dir drug_dir protein_dir drug_vecs drug_lens
             prot_vec prot_len True) = Inr r"
  shows "length (features r) = 2 * length drug_vecs \<and>
    (\<exists>dti_df drug_df protein_df.
       plain_csv files dti_dir = Some dti_df \<and>
       indexed_csv files drug_dir ''Compound_ID'' = Some drug_df \<and>
       indexed_csv files protein_dir ''Protein_ID'' = Some protein_df \<and>
       (\<forall>k<length drug_vecs.
          feature_array to_float drug_df (drug_vecs ! k) (Compound_ID dti_df)
            (features r ! (2 * k)) \<and>
          feature_array to_float protein_df prot_vec (Protein_ID dti_df)
            (features r ! (2 * k + 1))))"
proof -
  from parse_data_run [OF assms] obtain dti_df drug_df protein_df where
    files: "plain_csv files dti_dir = Some dti_df"
      "indexed_csv files drug_dir ''Compound_ID'' = Some drug_df"
      "indexed_csv files protein_dir ''Protein_ID'' = Some protein_df" and
    loop: "feature_loop to_float dti_df drug_df protein_df prot_vec drug_vecs [] = Inr (features r)"
    by blast
  from feature_loop_result [OF loop] have
    len: "length (features r) = 2 * length drug_vecs" and
    each: "\<And>k. k < length drug_vecs \<Longrightarrow>
        drug_feature to_float dti_df drug_df (drug_vecs ! k) = Inr (features r ! (2 * k)) \<and>
        protein_feature to_float dti_df protein_df prot_vec = Inr (features r ! (2 * k + 1))"
    by auto
  have "\<forall>k<length drug_vecs.
          feature_array to_float drug_df (drug_vecs ! k) (Compound_ID dti_df)
            (features r ! (2 * k)) \<and>
          feature_array to_float protein_df prot_vec (Protein_ID dti_df)
            (features r ! (2 * k + 1))"
  proof (intro allI impI)
    fix k assume "k < length drug_vecs"
    from each [OF this] drug_feature_rows protein_feature_rows
    show "feature_array to_float drug_df (drug_vecs ! k) (Compound_ID dti_df)
            (features r ! (2 * k)) \<and>
          feature_array to_float protein_df prot_vec (Protein_ID dti_df)
            (features r ! (2 * k + 1))"
      by (fastforce simp: feature_array_def)
  qed
  with len files show ?thesis by blast
qed

text \<open>The run on the example tables, with two requested names.\<close>

theorem parse_data_features_interleaved_witness:
  "snd (parse_data example_files decimal_float exact_num ''dti.csv'' ''drug.csv'' ''protein.csv''
     [''fp1'', ''fp2''] None ''seq'' 2500 True) =
     Inr \<lparr>features = [[[1, 2], [3, 4]], [[7, 8, 9], [7, 8, 9]], [[5, 6], [7, 8]], [[7, 8, 9], [7, 8, 9]]],
         label = [Int_label 1, Int_label 0]\<rparr> \<and>
   feature_array decimal_float example_drugs ''fp1'' (Some [''A'', ''B'']) [[1, 2], [3, 4]] \<and>
   feature_array decimal_float example_proteins ''seq'' (Some [''X'', ''X''])
     [[7, 8, 9], [7, 8, 9]] \<and>
   feature_array decimal_float example_drugs ''fp2'' (Some [''A'', ''B'']) [[5, 6], [7, 8]]"
proof -
  have run: "snd (parse_data example_files decimal_float exact_num ''dti.csv'' ''drug.csv'' ''protein.csv''
     [''fp1'', ''fp2''] None ''seq'' 2500 True) =
     Inr \<lparr>features = [[[1, 2], [3, 4]], [[7, 8, 9], [7, 8, 9]], [[5, 6], [7, 8]], [[7, 8, 9], [7, 8, 9]]],
         label = [Int_label 1, Int_label 0]\<rparr>"
    by (simp add: example_run)
  from parse_data_features_interleaved [OF run] obtain dti_df drug_df protein_df where
    "plain_csv example_files ''dti.csv'' = Some dti_df"
    "indexed_csv example_files ''drug.csv'' ''Compound_ID'' = Some drug_df"
    "indexed_csv example_files ''protein.csv'' ''Protein_ID'' = Some protein_df" and
    each: "\<And>k. k < 2 \<Longrightarrow>
       feature_array decimal_float drug_df ([''fp1'', ''fp2''] ! k) (Compound_ID dti_df)
         ([[[1, 2], [3, 4]], [[7, 8, 9], [7, 8, 9]], [[5, 6], [7, 8]], [[7, 8, 9], [7, 8, 9]]] ! (2 * k)) \<and>
       feature_array decimal_float protein_df ''seq'' (Protein_ID dti_df)
         ([[[1, 2], [3, 4]], [[7, 8, 9], [7, 8, 9]], [[5, 6], [7, 8]], [[7, 8, 9], [7, 8, 9]]] ! (2 * k + 1))"
    by auto
  then have tabs: "dti_df = example_dti" "drug_df = example_drugs" "protein_df = example_proteins"
    by (simp_all add: example_files_def)
  from each [of 0] each [of 1] run show ?thesis
    by (simp add: tabs example_dti_def)
qed

text \<open>
  C9. Every loop iteration computes the protein feature array anew from the one protein
  feature name, so when \<open>parse_data\<close> returns, the protein entries of the features list
  (indices 1, 3, 5, ...) are all that array, and equal to one another.
\<close>

theorem parse_data_protein_entries_equal:
  assumes "snd (parse_data files to_float num dti_dir drug_dir protein_dir drug_vecs drug_lens
             prot_vec prot_len True) = Inr r"
  shows "\<exists>dti_df protein_df.
       plain_csv files dti_dir = Some dti_df \<and>
       indexed_csv files protein_dir ''Protein_ID'' = Some protein_df \<and>
       (\<forall>i<length drug_vecs.
          protein_feature to_float dti_df protein_df prot_vec = Inr (features r ! (2 * i + 1)) \<and>
          (\<forall>j<length drug_vecs. features r ! (2 * i + 1) = features r ! (2 * j + 1)))"
proof -
  from parse_data_run [OF assms] obtain dti_df drug_df protein_df where
    files: "plain_csv files dti_dir = Some dti_df"
      "indexed_csv files protein_dir ''Protein_ID'' = Some protein_df" and
    loop: "feature_loop to_float dti_df drug_df protein_df prot_vec drug_vecs [] = Inr (features r)"
    by blast
  from feature_loop_result [OF loop] have
    each: "\<And>k. k < length drug_vecs \<Longrightarrow>
        protein_feature to_float dti_df protein_df prot_vec = Inr (features r ! (2 * k + 1))"
    by auto
  have "\<forall>i<length drug_vecs.
          protein_feature to_float dti_df protein_df prot_vec = Inr (features r ! (2 * i + 1)) \<and>
          (\<forall>j<length drug_vecs. features r ! (2 * i + 1) = features r ! (2 * j + 1))"
  proof (intro allI impI conjI)
    fix i assume "i < length drug_vecs"
    then show "protein_feature to_float dti_df protein_df prot_vec = Inr (features r ! (2 * i + 1))"
      by (rule each)
  next
    fix i j assume "i < length drug_vecs" "j < length drug_vecs"
    then have "Inr (features r ! (2 * i + 1)) = (Inr (features r ! (2 * j + 1)) :: error + _)"
      using each [of i] each [of j] by simp
    then show "features r ! (2 * i + 1) = features r ! (2 * j + 1)"
      by simp
  qed
  with files show ?thesis by blast
qed

text \<open>The run on the example tables: entries 1 and 3 are the same array.\<close>

theorem parse_data_protein_entries_equal_witness:
  "snd (parse_data example_files decimal_float exact_num ''dti.csv'' ''drug.csv'' ''protein.csv''
     [''fp1'', ''fp2''] None ''seq'' 2500 True) =
     Inr \<lparr>features = [[[1, 2], [3, 4]], [[7, 8, 9], [7, 8, 9]], [[5, 6], [7, 8]], [[7, 8, 9], [7, 8, 9]]],
         label = [Int_label 1, Int_label 0]\<rparr> \<and>
   protein_feature decimal_float example_dti example_proteins ''seq'' = Inr [[7, 8, 9], [7, 8, 9]] \<and>
   [[[1, 2], [3, 4]], [[7, 8, 9], [7, 8, 9]], [[5, 6], [7, 8]], [[7, 8, 9], [7, 8, 9 :: real]]] ! 1 =
   [[[1, 2], [3, 4]], [[7, 8, 9], [7, 8, 9]], [[5, 6], [7, 8]], [[7, 8, 9], [7, 8, 9]]] ! 3"
proof -
  have run: "snd (parse_data example_files decimal_float exact_num ''dti.csv'' ''drug.csv'' ''protein.csv''
     [''fp1'', ''fp2''] None ''seq'' 2500 True) =
     Inr \<lparr>features = [[[1, 2], [3, 4]], [[7, 8, 9], [7, 8, 9]], [[5, 6], [7, 8]], [[7, 8, 9], [7, 8, 9]]],
         label = [Int_label 1, Int_label 0]\<rparr>"
    by (simp add: example_run)
  from parse_data_protein_entries_equal [OF run] obtain dti_df protein_df where
    "plain_csv example_files ''dti.csv'' = Some dti_df"
    "indexed_csv example_files ''protein.csv'' ''Protein_ID'' = Some protein_df" and
    each: "\<And>i. i < 2 \<Longrightarrow>
       protein_feature decimal_float dti_df protein_df ''seq'' =
         Inr ([[[1, 2], [3, 4]], [[7, 8, 9], [7, 8, 9]], [[5, 6], [7, 8]], [[7, 8, 9], [7, 8, 9]]] ! (2 * i + 1))"
    by auto
  then have tabs: "dti_df = example_dti" "protein_df = example_proteins"
    by (simp_all add: example_files_def)
  from each [of 0] run show ?thesis
    by (simp add: tabs)
qed

text \<open>
  C4. For a drug column with A: \<^verbatim>\<open>1<TAB>2\<close> and B: \<^verbatim>\<open>3<TAB>4\<close> and the interactions
  (A, X), (B, X), the drug feature array is [[1, 2], [3, 4]], where the conversion maps the
  four digit strings to their numbers; it is entry 0 of the features that \<open>parse_data\<close>
  returns.
\<close>

theorem drug_feature_rows_in_interaction_order:
  fixes to_float :: "string \<Rightarrow> real option"
  assumes conv: "to_float ''1'' = Some 1" "to_float ''2'' = Some 2"
      "to_float ''3'' = Some 3" "to_float ''4'' = Some 4"
    and files: "plain_csv files dti_dir = Some dti_df"
      "indexed_csv files drug_dir ''Compound_ID'' = Some drug_df"
    and drug: "drug_df drug_vec =
      Some [(''A'', Str (''1'' @ [TAB] @ ''2'')), (''B'', Str (''3'' @ [TAB] @ ''4''))]"
    and dti: "Compound_ID dti_df = Some [''A'', ''B'']" "Protein_ID dti_df = Some [''X'', ''X'']"
  shows "drug_feature to_float dti_df drug_df drug_vec = Inr [[1, 2], [3, 4]] \<and>
    (\<forall>r. snd (parse_data files to_float num dti_dir drug_dir protein_dir [drug_vec] drug_lens
            prot_vec prot_len True) = Inr r \<longrightarrow>
         features r ! 0 = [[1, 2], [3, 4]])"
proof -
  have d: "drug_feature to_float dti_df drug_df drug_vec = Inr [[1, 2], [3, 4]]"
    using conv drug dti
    by (simp add: drug_feature_def series_map_def split_cell_def to_dict_def getitem_def
        np_array_def ragged_def TAB_def)
  have "features r ! 0 = [[1, 2], [3, 4]]"
    if run: "snd (parse_data files to_float num dti_dir drug_dir protein_dir [drug_vec] drug_lens
            prot_vec prot_len True) = Inr r" for r
  proof -
    from parse_data_run [OF run] files obtain protein_df where
      "feature_loop to_float dti_df drug_df protein_df prot_vec [drug_vec] [] = Inr (features r)"
      by auto
    from feature_loop_result [OF this]
    have "drug_feature to_float dti_df drug_df drug_vec = Inr (features r ! 0)"
      by auto
    with d show ?thesis by simp
  qed
  with d show ?thesis by blast
qed

text \<open>The example tables are this input.\<close>

theorem drug_feature_rows_in_interaction_order_witness:
  "decimal_float ''1'' = Some 1 \<and> decimal_float ''2'' = Some 2 \<and>
   decimal_float ''3'' = Some 3 \<and> decimal_float ''4'' = Some 4 \<and>
   drug_feature decimal_float example_dti example_drugs ''fp1'' = Inr [[1, 2], [3, 4]] \<and>
   snd (parse_data example_files decimal_float exact_num ''dti.csv'' ''drug.csv'' ''protein.csv''
      [''fp1''] None ''seq'' 2500 True) =
      Inr \<lparr>features = [[[1, 2], [3, 4]], [[7, 8, 9], [7, 8, 9]]], label = [Int_label 1, Int_label 0]\<rparr>"
proof -
  have conv: "decimal_float ''1'' = Some 1" "decimal_float ''2'' = Some 2"
      "decimal_float ''3'' = Some 3" "decimal_float ''4'' = Some 4"
    by (simp_all add: decimal_float_def decimal_def digit_value_def)
  have files: "plain_csv example_files ''dti.csv'' = Some example_dti"
      "indexed_csv example_files ''drug.csv'' ''Compound_ID'' = Some example_drugs"
    by (simp_all add: example_files_def)
  have drug: "example_drugs ''fp1'' =
      Some [(''A'', Str (''1'' @ [TAB] @ ''2'')), (''B'', Str (''3'' @ [TAB] @ ''4''))]"
    by (simp add: example_drugs_def)
  have dti: "Compound_ID example_dti = Some [''A'', ''B'']"
      "Protein_ID example_dti = Some [''X'', ''X'']"
    by (simp_all add: example_dti_def)
  have run: "snd (parse_data example_files decimal_float exact_num ''dti.csv'' ''drug.csv'' ''protein.csv''
      [''fp1''] None ''seq'' 2500 True) =
      Inr \<lparr>features = [[[1, 2], [3, 4]], [[7, 8, 9], [7, 8, 9]]], label = [Int_label 1, Int_label 0]\<rparr>"
    by (simp add: example_defs)
  from drug_feature_rows_in_interaction_order [OF conv files drug dti,
      where num = exact_num and protein_dir = "''protein.csv''" and drug_lens = None
        and prot_vec = "''seq''"
        and prot_len = 2500] run conv
  show ?thesis by simp
qed

section \<open>The printed label counts\<close>

text \<open>On integer labels the arithmetic of lines 52 and 53 cannot raise.\<close>

lemma parse_data_counts_only_on_success:
  assumes dti: "plain_csv files dti_dir = Some dti_df"
    and ints: "Label dti_df = map_option (map Int_label) ints"
    and printed: "Print_positive p \<in> set (fst (parse_data files to_float num dti_dir drug_dir
             protein_dir drug_vecs drug_lens prot_vec prot_len parsing))
           \<or> Print_negative n \<in> set (fst (parse_data files to_float num dti_dir drug_dir
             protein_dir drug_vecs drug_lens prot_vec prot_len parsing))"
  shows "parsing \<and> (\<exists>r. snd (parse_data files to_float num dti_dir drug_dir protein_dir
             drug_vecs drug_lens prot_vec prot_len parsing) = Inr r)"
proof -
  let ?loop = "\<lambda>drug_df protein_df.
      feature_loop to_float dti_df drug_df protein_df prot_vec drug_vecs []"
  from printed have parsing: parsing
    by (cases parsing) (simp_all add: parse_data_def)
  show ?thesis
  proof (cases "indexed_csv files drug_dir ''Compound_ID''")
    case None
    with printed parsing dti show ?thesis
      by (auto simp: parse_data_def read_csv_def read_csv_indexed_def emit_def)
  next
    case drug: (Some drug_df)
    show ?thesis
    proof (cases "indexed_csv files protein_dir ''Protein_ID''")
      case None
      with printed parsing dti drug show ?thesis
        by (auto simp: parse_data_def read_csv_def read_csv_indexed_def emit_def)
    next
      case prot: (Some protein_df)
      show ?thesis
      proof (cases "?loop drug_df protein_df")
        case (Inl e)
        with printed parsing dti drug prot show ?thesis
          by (auto simp: parse_data_def read_csv_def read_csv_indexed_def emit_def lift_def)
      next
        case loop: (Inr fs)
        show ?thesis
        proof (cases ints)
          case None
          with printed parsing dti drug prot loop ints show ?thesis
            by (auto simp: parse_data_def read_csv_def read_csv_indexed_def emit_def lift_def)
        next
          case (Some labels)
          with parsing dti drug prot loop ints show ?thesis
            by (simp add: parse_data_def read_csv_def read_csv_indexed_def emit_def lift_def
                rows_minus_def percent_d_def)
        qed
      qed
    qed
  qed
qed

text \<open>
  C8, as the code has it. For an interaction table whose label column holds integers:
  whenever a run prints a positive and a negative count, the positive count is the sum of
  the label column, the negative count is the row count minus that sum, and the two add
  up to the number of interaction rows. A run that parses and returns prints both.
\<close>

theorem parse_data_label_counts:
  assumes "plain_csv files dti_dir = Some dti_df"
    and "Label dti_df = map_option (map Int_label) ints"
    and "parse_data files to_float num dti_dir drug_dir protein_dir drug_vecs drug_lens prot_vec
           prot_len parsing = (out, res)"
  shows "(\<forall>p n. Print_positive p \<in> set out \<and> Print_negative n \<in> set out \<longrightarrow>
            (\<exists>labels. ints = Some labels \<and> p = sum_list labels \<and>
               n = int (shape0 dti_df) - sum_list labels) \<and>
            p + n = int (shape0 dti_df)) \<and>
         (parsing \<and> \<not> isl res \<longrightarrow>
            (\<exists>p n. Print_positive p \<in> set out \<and> Print_negative n \<in> set out))"
proof (intro conjI allI impI)
  fix p n assume pn: "Print_positive p \<in> set out \<and> Print_negative n \<in> set out"
  with assms parse_data_counts_only_on_success [OF assms(1,2), where p = p and n = n
      and to_float = to_float and num = num and drug_dir = drug_dir and protein_dir = protein_dir
      and drug_vecs = drug_vecs and drug_lens = drug_lens and prot_vec = prot_vec
      and prot_len = prot_len and parsing = parsing]
  obtain r where parsing: parsing and r: "res = Inr r"
    by auto
  from assms(3) parsing r have run: "snd (parse_data files to_float num dti_dir drug_dir
      protein_dir drug_vecs drug_lens prot_vec prot_len True) = Inr r"
    by simp
  from parse_data_run [OF run] assms(1,3) parsing obtain positive negative where
    lab: "Label dti_df = Some (label r)" and
    pos: "and_then (py_sum num (label r)) (percent_d num) = Inr positive" and
    neg: "and_then (py_sum num (label r))
       (\<lambda>s. and_then (rows_minus num (shape0 dti_df) s) (percent_d num)) = Inr negative" and
    out: "out = [Print_parsing dti_dir drug_dir, Read_csv dti_dir, Read_csv drug_dir,
        Read_csv protein_dir, Print_positive positive, Print_negative negative]"
    by auto
  from lab assms(2) obtain labels where labels: "ints = Some labels"
    "label r = map Int_label labels"
    by (cases ints) auto
  from pos neg labels have "positive = sum_list labels"
    "negative = int (shape0 dti_df) - sum_list labels"
    by (simp_all add: rows_minus_def percent_d_def)
  with pn out have p: "p = sum_list labels" and n: "n = int (shape0 dti_df) - sum_list labels"
    by auto
  from labels p n show "\<exists>labels. ints = Some labels \<and> p = sum_list labels \<and>
               n = int (shape0 dti_df) - sum_list labels"
    by blast
  from p n show "p + n = int (shape0 dti_df)"
    by simp
next
  assume "parsing \<and> \<not> isl res"
  then obtain r where parsing: parsing and r: "res = Inr r"
    by (cases res) auto
  from assms(3) parsing r have run: "snd (parse_data files to_float num dti_dir drug_dir
      protein_dir drug_vecs drug_lens prot_vec prot_len True) = Inr r"
    by simp
  from parse_data_run [OF run] assms(3) parsing obtain positive negative where
    "out = [Print_parsing dti_dir drug_dir, Read_csv dti_dir, Read_csv drug_dir,
        Read_csv protein_dir, Print_positive positive, Print_negative negative]"
    by auto
  then show "\<exists>p n. Print_positive p \<in> set out \<and> Print_negative n \<in> set out"
    by auto
qed

text \<open>
  The claim as stated fails on a label column of float dtype: for the labels 0.5 and 1.0
  the sum is 1.5 and the row count minus it 0.5, which \<^verbatim>\<open>%d\<close> prints as 1 and 0, for two
  rows.
\<close>

theorem parse_data_label_counts_counterexample:
  "plain_csv example_files ''dti_float.csv'' = Some float_label_dti \<and>
   Label float_label_dti = Some [Float_label (1 / 2), Float_label 1] \<and>
   shape0 float_label_dti = 2 \<and>
   parse_data example_files decimal_float exact_num ''dti_float.csv'' ''drug.csv''
     ''protein.csv'' [''fp1''] None ''seq'' 2500 True =
   ([Print_parsing ''dti_float.csv'' ''drug.csv'', Read_csv ''dti_float.csv'',
     Read_csv ''drug.csv'', Read_csv ''protein.csv'', Print_positive 1, Print_negative 0],
    Inr \<lparr>features = [[[1, 2], [3, 4]], [[7, 8, 9], [7, 8, 9]]],
         label = [Float_label (1 / 2), Float_label 1]\<rparr>) \<and>
   (1::int) + 0 \<noteq> int (shape0 float_label_dti)"
  by (simp add: example_defs)

text \<open>The run on the example tables, whose labels are integers, prints 1 and 1 for two rows.\<close>

theorem parse_data_label_counts_witness:
  "plain_csv example_files ''dti.csv'' = Some example_dti \<and>
   Label example_dti = map_option (map Int_label) (Some [1, 0]) \<and>
   Print_positive 1 \<in> set (fst (parse_data example_files decimal_float exact_num ''dti.csv''
     ''drug.csv'' ''protein.csv'' [''fp1'', ''fp2''] None ''seq'' 2500 True)) \<and>
   Print_negative 1 \<in> set (fst (parse_data example_files decimal_float exact_num ''dti.csv''
     ''drug.csv'' ''protein.csv'' [''fp1'', ''fp2''] None ''seq'' 2500 True)) \<and>
   (1::int) + 1 = int (shape0 example_dti)"
proof -
  have f: "plain_csv example_files ''dti.csv'' = Some example_dti"
    by (simp add: example_files_def)
  have l: "Label example_dti = map_option (map Int_label) (Some [1, 0])"
    by (simp add: example_dti_def)
  from parse_data_label_counts [OF f l example_run]
  have "(1::int) + 1 = int (shape0 example_dti)"
    by simp
  with f l show ?thesis
    by (simp add: example_run)
qed

section \<open>Errors\<close>

text \<open>
  C2, as the code has it. With parsing enabled and the interaction table loaded,
  \<open>parse_data\<close> raises, and returns nothing, in each of these cases. On the drug side,
  for a requested drug feature name whose column the drug table has: an interaction row
  whose drug identifier the drug table lacks; an interaction row whose drug has an
  undecodable feature cell; a cell of the column, of any drug, that is not a string. On
  the protein side, when at least one drug feature name is requested and the protein
  table has the protein column: an interaction row whose protein identifier the protein
  table lacks; a cell of the column, of any protein, that is undecodable.
\<close>

theorem parse_data_propagates_errors:
  assumes dti: "plain_csv files dti_dir = Some dti_df"
    and bad:
      "(drug_vec \<in> set drug_vecs \<and>
        indexed_csv files drug_dir ''Compound_ID'' = Some drug_df \<and>
        drug_df drug_vec = Some column \<and> Compound_ID dti_df = Some drugs \<and>
        ((\<exists>d\<in>set drugs. d \<notin> fst ` set column) \<or>
         (\<exists>d\<in>set drugs. \<exists>c. to_dict column d = Some c \<and> undecodable to_float c) \<or>
         NonStr \<in> snd ` set column)) \<or>
       (drug_vecs \<noteq> [] \<and>
        indexed_csv files protein_dir ''Protein_ID'' = Some protein_df \<and>
        protein_df prot_vec = Some pcolumn \<and> Protein_ID dti_df = Some proteins \<and>
        ((\<exists>p\<in>set proteins. p \<notin> fst ` set pcolumn) \<or>
         (\<exists>c\<in>snd ` set pcolumn. undecodable to_float c)))"
  shows "\<exists>e. snd (parse_data files to_float num dti_dir drug_dir protein_dir drug_vecs drug_lens
           prot_vec prot_len True) = Inl e"
proof (rule ccontr)
  assume "\<not> ?thesis"
  then obtain r where run: "snd (parse_data files to_float num dti_dir drug_dir protein_dir drug_vecs
      drug_lens prot_vec prot_len True) = Inr r"
    by (cases "snd (parse_data files to_float num dti_dir drug_dir protein_dir drug_vecs
      drug_lens prot_vec prot_len True)") auto
  from parse_data_run [OF run] dti obtain drug_df' protein_df' where
    tables: "indexed_csv files drug_dir ''Compound_ID'' = Some drug_df'"
      "indexed_csv files protein_dir ''Protein_ID'' = Some protein_df'" and
    loop: "feature_loop to_float dti_df drug_df' protein_df' prot_vec drug_vecs [] =
      Inr (features r)"
    by auto
  from bad show False
  proof (rule disjE)
    assume drug_side: "drug_vec \<in> set drug_vecs \<and>
        indexed_csv files drug_dir ''Compound_ID'' = Some drug_df \<and>
        drug_df drug_vec = Some column \<and> Compound_ID dti_df = Some drugs \<and>
        ((\<exists>d\<in>set drugs. d \<notin> fst ` set column) \<or>
         (\<exists>d\<in>set drugs. \<exists>c. to_dict column d = Some c \<and> undecodable to_float c) \<or>
         NonStr \<in> snd ` set column)"
    then have side: "drug_vec \<in> set drug_vecs"
      "indexed_csv files drug_dir ''Compound_ID'' = Some drug_df"
      "drug_df drug_vec = Some column" "Compound_ID dti_df = Some drugs"
      by simp_all
    from drug_side have cells: "(\<exists>d\<in>set drugs. d \<notin> fst ` set column) \<or>
         (\<exists>d\<in>set drugs. \<exists>c. to_dict column d = Some c \<and> undecodable to_float c) \<or>
         NonStr \<in> snd ` set column"
      by simp
    from side(1) obtain k where k: "k < length drug_vecs" "drug_vecs ! k = drug_vec"
      by (auto simp: in_set_conv_nth)
    from feature_loop_result [OF loop] k side(2) tables(1) obtain darr where
      d: "drug_feature to_float dti_df drug_df drug_vec = Inr darr"
      by auto
    from drug_feature_rows [OF d] side
    have dr: "list_all2 (decodes_to to_float column) drugs darr"
      by auto
    have drugs_ok: "\<exists>c. to_dict column x = Some c \<and> \<not> undecodable to_float c"
      if "x \<in> set drugs" for x
    proof -
      from that dr obtain vec where "decodes_to to_float column x vec"
        by (auto simp: in_set_conv_nth list_all2_conv_all_nth)
      then show ?thesis by (rule decodes_to_not_undecodable)
    qed
    from cells show False
    proof (elim disjE bexE exE conjE)
      fix x assume "x \<in> set drugs" "x \<notin> fst ` set column"
      with drugs_ok [of x] show False
        by (simp add: to_dict_eq_None [symmetric])
    next
      fix x c assume "x \<in> set drugs" "to_dict column x = Some c" "undecodable to_float c"
      with drugs_ok [of x] show False by simp
    next
      assume "NonStr \<in> snd ` set column"
      with drug_feature_cells [OF d side(3)] show False by simp
    qed
  next
    assume protein_side: "drug_vecs \<noteq> [] \<and>
        indexed_csv files protein_dir ''Protein_ID'' = Some protein_df \<and>
        protein_df prot_vec = Some pcolumn \<and> Protein_ID dti_df = Some proteins \<and>
        ((\<exists>p\<in>set proteins. p \<notin> fst ` set pcolumn) \<or>
         (\<exists>c\<in>snd ` set pcolumn. undecodable to_float c))"
    then have side: "drug_vecs \<noteq> []"
      "indexed_csv files protein_dir ''Protein_ID'' = Some protein_df"
      "protein_df prot_vec = Some pcolumn" "Protein_ID dti_df = Some proteins"
      by simp_all
    from protein_side have cells: "(\<exists>p\<in>set proteins. p \<notin> fst ` set pcolumn) \<or>
         (\<exists>c\<in>snd ` set pcolumn. undecodable to_float c)"
      by simp
    from side(1) have "0 < length drug_vecs" by simp
    with feature_loop_result [OF loop] side(2) tables(2) obtain parr where
      p: "protein_feature to_float dti_df protein_df prot_vec = Inr parr"
      by auto
    from protein_feature_rows [OF p] side
    have pr: "list_all2 (decodes_to to_float pcolumn) proteins parr"
      by auto
    have proteins_ok: "\<exists>c. to_dict pcolumn x = Some c"
      if "x \<in> set proteins" for x
    proof -
      from that pr obtain vec where "decodes_to to_float pcolumn x vec"
        by (auto simp: in_set_conv_nth list_all2_conv_all_nth)
      from decodes_to_not_undecodable [OF this] show ?thesis by blast
    qed
    from cells show False
    proof (elim disjE bexE)
      fix x assume "x \<in> set proteins" "x \<notin> fst ` set pcolumn"
      with proteins_ok [of x] show False
        by (simp add: to_dict_eq_None [symmetric])
    next
      fix c assume "c \<in> snd ` set pcolumn" "undecodable to_float c"
      with protein_feature_cells [OF p side(3)] show False by simp
    qed
  qed
qed

text \<open>
  The claim as stated fails twice. With no requested name nothing is looked up, so the
  interaction row that references drug Z, which the drug table lacks, raises nothing. And
  the feature string \<^verbatim>\<open>x\<close> of drug B, which no interaction row references, is split but
  never converted, so the run on the row (A, X) returns.
\<close>

theorem parse_data_propagates_errors_counterexample:
  "plain_csv stray_files ''dti_z.csv'' = Some (stray_dti ''Z'' ''X'') \<and>
   plain_csv stray_files ''dti.csv'' = Some (stray_dti ''A'' ''X'') \<and>
   indexed_csv stray_files ''drug.csv'' ''Compound_ID'' = Some stray_drugs \<and>
   indexed_csv stray_files ''protein.csv'' ''Protein_ID'' = Some stray_proteins \<and>
   stray_drugs ''fp'' = Some stray_fp \<and> stray_proteins ''seq'' = Some stray_seq \<and>
   Compound_ID (stray_dti ''Z'' ''X'') = Some [''Z''] \<and> ''Z'' \<notin> fst ` set stray_fp \<and>
   snd (parse_data stray_files decimal_float exact_num ''dti_z.csv'' ''drug.csv'' ''protein.csv''
     [] None ''seq'' 2500 True) = Inr \<lparr>features = [], label = [Int_label 1]\<rparr> \<and>
   (''B'', Str ''x'') \<in> set stray_fp \<and> undecodable decimal_float (Str ''x'') \<and>
   snd (parse_data stray_files decimal_float exact_num ''dti.csv'' ''drug.csv'' ''protein.csv''
     [''fp''] None ''seq'' 2500 True) =
     Inr \<lparr>features = [[[1, 2]], [[7, 8]]], label = [Int_label 1]\<rparr>"
  by (simp add: stray_defs run_defs undecodable_def)

text \<open>
  With a requested name, the interaction row that references drug Z raises, and so does
  the row that references protein Y, which the protein table lacks.
\<close>

theorem parse_data_propagates_errors_witness:
  "plain_csv stray_files ''dti_z.csv'' = Some (stray_dti ''Z'' ''X'') \<and>
   plain_csv stray_files ''dti_y.csv'' = Some (stray_dti ''A'' ''Y'') \<and>
   stray_drugs ''fp'' = Some stray_fp \<and> stray_proteins ''seq'' = Some stray_seq \<and>
   ''Z'' \<notin> fst ` set stray_fp \<and> ''Y'' \<notin> fst ` set stray_seq \<and>
   snd (parse_data stray_files decimal_float exact_num ''dti_z.csv'' ''drug.csv'' ''protein.csv''
     [''fp''] None ''seq'' 2500 True) = Inl KeyError \<and>
   snd (parse_data stray_files decimal_float exact_num ''dti_y.csv'' ''drug.csv'' ''protein.csv''
     [''fp''] None ''seq'' 2500 True) = Inl KeyError"
proof -
  have dti: "plain_csv stray_files ''dti_z.csv'' = Some (stray_dti ''Z'' ''X'')"
    "plain_csv stray_files ''dti_y.csv'' = Some (stray_dti ''A'' ''Y'')"
    by (simp_all add: stray_files_def)
  have cols: "stray_drugs ''fp'' = Some stray_fp" "stray_proteins ''seq'' = Some stray_seq"
    by (simp_all add: stray_drugs_def stray_proteins_def)
  have absent: "''Z'' \<notin> fst ` set stray_fp" "''Y'' \<notin> fst ` set stray_seq"
    by (simp_all add: stray_fp_def stray_seq_def)
  have drug_side: "(''fp'' \<in> set [''fp''] \<and>
        indexed_csv stray_files ''drug.csv'' ''Compound_ID'' = Some stray_drugs \<and>
        stray_drugs ''fp'' = Some stray_fp \<and> Compound_ID (stray_dti ''Z'' ''X'') = Some [''Z''] \<and>
        ((\<exists>d\<in>set [''Z'']. d \<notin> fst ` set stray_fp) \<or>
         (\<exists>d\<in>set [''Z'']. \<exists>c. to_dict stray_fp d = Some c \<and> undecodable decimal_float c) \<or>
         NonStr \<in> snd ` set stray_fp)) \<or>
       ([''fp''] \<noteq> [] \<and>
        indexed_csv stray_files ''protein.csv'' ''Protein_ID'' = Some stray_proteins \<and>
        stray_proteins ''seq'' = Some stray_seq \<and>
        Protein_ID (stray_dti ''Z'' ''X'') = Some [''X''] \<and>
        ((\<exists>p\<in>set [''X'']. p \<notin> fst ` set stray_seq) \<or>
         (\<exists>c\<in>snd ` set stray_seq. undecodable decimal_float c)))"
    using cols absent by (simp add: stray_files_def stray_dti_def)
  have protein_side: "(''fp'' \<in> set [''fp''] \<and>
        indexed_csv stray_files ''drug.csv'' ''Compound_ID'' = Some stray_drugs \<and>
        stray_drugs ''fp'' = Some stray_fp \<and> Compound_ID (stray_dti ''A'' ''Y'') = Some [''A''] \<and>
        ((\<exists>d\<in>set [''A'']. d \<notin> fst ` set stray_fp) \<or>
         (\<exists>d\<in>set [''A'']. \<exists>c. to_dict stray_fp d = Some c \<and> undecodable decimal_float c) \<or>
         NonStr \<in> snd ` set stray_fp)) \<or>
       ([''fp''] \<noteq> [] \<and>
        indexed_csv stray_files ''protein.csv'' ''Protein_ID'' = Some stray_proteins \<and>
        stray_proteins ''seq'' = Some stray_seq \<and>
        Protein_ID (stray_dti ''A'' ''Y'') = Some [''Y''] \<and>
        ((\<exists>p\<in>set [''Y'']. p \<notin> fst ` set stray_seq) \<or>
         (\<exists>c\<in>snd ` set stray_seq. undecodable decimal_float c)))"
    using cols absent by (simp add: stray_files_def stray_dti_def)
  from parse_data_propagates_errors [OF dti(1) drug_side]
  have z: "\<exists>e. snd (parse_data stray_files decimal_float exact_num ''dti_z.csv'' ''drug.csv''
     ''protein.csv'' [''fp''] None ''seq'' 2500 True) = Inl e" .
  from parse_data_propagates_errors [OF dti(2) protein_side]
  have y: "\<exists>e. snd (parse_data stray_files decimal_float exact_num ''dti_y.csv'' ''drug.csv''
     ''protein.csv'' [''fp''] None ''seq'' 2500 True) = Inl e" .
  from z y dti cols absent show ?thesis
    by (simp add: stray_defs run_defs)
qed

section \<open>The parameter builder\<close>

text \<open>
  C5. When \<open>get_params\<close> returns, the three layer lists of the model parameters hold,
  string by string, the integers that the comma-separated pieces of the argument's
  strings convert to; and where \<open>to_int\<close> maps 100, 50 and 10 to their numbers, the string
  \<^verbatim>\<open>100,50,10\<close> parses to [100, 50, 10].
\<close>

theorem get_params_layer_lists:
  assumes "snd (get_params files to_float num to_int args) =
     Inr (train_dic, test_dic, train_params, type_params, model_params, output_file)"
  shows "(\<exists>drug_strs protein_strs fc_strs.
       arg_drug_layers_list args = Some drug_strs \<and>
       arg_protein_layers_list args = Some protein_strs \<and>
       arg_fc_layers_list args = Some fc_strs \<and>
       list_all2 (parses_to to_int) drug_strs (mp_drug_layers_list model_params) \<and>
       list_all2 (parses_to to_int) protein_strs (mp_protein_layers_list model_params) \<and>
       list_all2 (parses_to to_int) fc_strs (mp_fc_layers_list model_params)) \<and>
     (to_int ''100'' = Some 100 \<and> to_int ''50'' = Some 50 \<and> to_int ''10'' = Some 10 \<longrightarrow>
        layers to_int ''100,50,10'' = Inr [100, 50, 10] \<and>
        parses_to to_int ''100,50,10'' [100, 50, 10])"
proof -
  from get_params_run(1-3) [OF assms]
  have "\<exists>drug_strs protein_strs fc_strs.
       arg_drug_layers_list args = Some drug_strs \<and>
       arg_protein_layers_list args = Some protein_strs \<and>
       arg_fc_layers_list args = Some fc_strs \<and>
       list_all2 (parses_to to_int) drug_strs (mp_drug_layers_list model_params) \<and>
       list_all2 (parses_to to_int) protein_strs (mp_protein_layers_list model_params) \<and>
       list_all2 (parses_to to_int) fc_strs (mp_fc_layers_list model_params)"
    by (auto simp: layers_list_eq_Inr)
  moreover have "layers to_int ''100,50,10'' = Inr [100, 50, 10] \<and>
        parses_to to_int ''100,50,10'' [100, 50, 10]"
    if "to_int ''100'' = Some 100 \<and> to_int ''50'' = Some 50 \<and> to_int ''10'' = Some 10"
    using that by (simp add: layers_def parses_to_def COMMA_def)
  ultimately show ?thesis by blast
qed

text \<open>The run on the example command line.\<close>

theorem get_params_layer_lists_witness:
  "snd (get_params example_files decimal_float exact_num decimal_int
     (get_args example_literal example_cmdline)) =
   Inr (example_parsed, [(''t1'', example_parsed), (''t2'', example_parsed)],
        \<lparr>trp_n_epoch = 10, trp_batch_size = 32\<rparr>,
        \<lparr>tp_drug_vecs = [''fp1''], tp_drug_lens = None, tp_prot_vec = ''seq'', tp_prot_len = 2500\<rparr>,
        \<lparr>tp_drug_vecs = [''fp1''], tp_drug_lens = None, tp_prot_vec = ''seq'', tp_prot_len = 2500,
         mp_drug_layers_list = [[100, 50, 10]], mp_protein_layers_list = [[64]],
         mp_fc_layers_list = [[32, 16]], mp_learning_rate = 1 / 10000, mp_decay = 0,
         mp_activation = None, mp_dropout = 1 / 5, mp_model_output = None\<rparr>,
        None) \<and>
   arg_drug_layers_list (get_args example_literal example_cmdline) = Some [''100,50,10''] \<and>
   decimal_int ''100'' = Some 100 \<and> decimal_int ''50'' = Some 50 \<and> decimal_int ''10'' = Some 10 \<and>
   layers decimal_int ''100,50,10'' = Inr [100, 50, 10] \<and>
   parses_to decimal_int ''100,50,10'' [100, 50, 10]"
proof -
  have conv: "decimal_int ''100'' = Some 100 \<and> decimal_int ''50'' = Some 50 \<and>
      decimal_int ''10'' = Some 10"
    by (simp add: decimal_int_def decimal_def digit_value_def)
  from get_params_layer_lists [OF example_params_run] conv
  have "layers decimal_int ''100,50,10'' = Inr [100, 50, 10] \<and>
        parses_to decimal_int ''100,50,10'' [100, 50, 10]"
    by blast
  with conv show ?thesis
    by (simp add: example_params_run) (simp add: get_args_def example_cmdline_def)
qed

text \<open>
  C6, as the code has it. When \<open>get_params\<close> returns, with \<open>n\<close> the length of the
  shortest of the four test-set lists: the keys of the test-set mapping are the names at
  the positions below \<open>n\<close>, each once; the entry of a name is what \<open>parse_data\<close> returns,
  under the feature-type descriptor of the arguments, for the paths at the last position
  below \<open>n\<close> that carries the name; when those names are distinct the mapping has one
  entry per position, in order. The training data is parsed under the same descriptor.
\<close>

theorem get_params_test_sets:
  assumes run: "snd (get_params files to_float num to_int args) =
     Inr (train_dic, test_dic, train_params, type_params, model_params, output_file)"
    and lists: "arg_test_name args = Some names" "arg_test_dti_dir args = Some dtis"
      "arg_test_drug_dir args = Some drugs" "arg_test_protein_dir args = Some proteins"
    and n: "n = min (min (length names) (length dtis)) (min (length drugs) (length proteins))"
  shows "fst ` set test_dic = set (take n names) \<and> distinct (map fst test_dic) \<and>
     (\<forall>i<n. (\<forall>j<n. i < j \<longrightarrow> names ! j \<noteq> names ! i) \<longrightarrow>
        (\<exists>p. map_of test_dic (names ! i) = Some p \<and>
           snd (parse_data files to_float num (dtis ! i) (drugs ! i) (proteins ! i)
             (arg_drug_vecs args) (arg_drug_lens args) (arg_prot_vec args) (arg_prot_len args)
             True) = Inr p)) \<and>
     (distinct (take n names) \<longrightarrow> map fst test_dic = take n names) \<and>
     snd (parse_data files to_float num (arg_dti_dir args) (arg_drug_dir args) (arg_protein_dir args)
       (arg_drug_vecs args) (arg_drug_lens args) (arg_prot_vec args) (arg_prot_len args)
       (arg_parsing_train args)) = Inr train_dic"
proof -
  define sets where "sets = zip names (zip dtis (zip drugs proteins))"
  have len_sets: "length sets = n"
    by (simp add: sets_def n min.assoc)
  have names_sets: "map fst sets = take n names"
    by (simp add: sets_def map_fst_zip_take n min.assoc)
  have nth_sets: "sets ! i = (names ! i, dtis ! i, drugs ! i, proteins ! i)" if "i < n" for i
    using that by (simp add: sets_def n)
  from get_params_run(4,6) [OF run] lists have
    tp: "type_params = \<lparr>tp_drug_vecs = arg_drug_vecs args, tp_drug_lens = arg_drug_lens args,
           tp_prot_vec = arg_prot_vec args, tp_prot_len = arg_prot_len args\<rparr>" and
    loop: "snd (test_loop files to_float num type_params sets []) = Inr test_dic"
    by (auto simp: zip4_eq_Inr sets_def)
  from test_loop_result [OF loop] obtain ps where
    ps: "list_all2 (\<lambda>s p. snd (parse_data files to_float num (fst (snd s)) (fst (snd (snd s)))
            (snd (snd (snd s))) (arg_drug_vecs args) (arg_drug_lens args) (arg_prot_vec args)
            (arg_prot_len args) True) = Inr p) sets ps" and
    dic: "test_dic = store_all (zip (take n names) ps) []"
    by (auto simp: tp names_sets)
  from ps len_sets have len_ps: "length ps = n"
    by (simp add: list_all2_lengthD [symmetric])
  define kvs where "kvs = zip (take n names) ps"
  have len_take: "length (take n names) = n"
    by (simp add: n)
  then have len_kvs: "length kvs = n" and keys_kvs: "map fst kvs = take n names"
    by (simp_all add: kvs_def len_ps)
  have nth_kvs: "kvs ! i = (names ! i, ps ! i)" if "i < n" for i
    using that len_take by (simp add: kvs_def len_ps)
  have keys: "fst ` set test_dic = set (take n names)"
    using keys_store_all [of kvs "[]"] keys_kvs by (simp add: dic kvs_def flip: set_map)
  have dist: "distinct (map fst test_dic)"
    using distinct_store_all [of "[]" kvs] by (simp add: dic kvs_def)
  have entry: "\<exists>p. map_of test_dic (names ! i) = Some p \<and>
           snd (parse_data files to_float num (dtis ! i) (drugs ! i) (proteins ! i)
             (arg_drug_vecs args) (arg_drug_lens args) (arg_prot_vec args) (arg_prot_len args)
             True) = Inr p"
    if i: "i < n" and last: "\<forall>j<n. i < j \<longrightarrow> names ! j \<noteq> names ! i" for i
  proof -
    have "map_of (rev kvs) (fst (kvs ! i)) = Some (snd (kvs ! i))"
    proof (rule map_of_rev_last)
      show "i < length kvs" using i by (simp add: len_kvs)
    next
      fix j assume "j < length kvs" "i < j"
      with last i show "fst (kvs ! j) \<noteq> fst (kvs ! i)"
        by (simp add: len_kvs nth_kvs)
    qed
    then have "map_of test_dic (names ! i) = Some (ps ! i)"
      using i by (simp add: dic map_of_store_all nth_kvs flip: kvs_def)
    moreover from i len_sets have "i < length sets" by simp
    from list_all2_nthD [OF ps this] i
    have "snd (parse_data files to_float num (dtis ! i) (drugs ! i) (proteins ! i)
             (arg_drug_vecs args) (arg_drug_lens args) (arg_prot_vec args) (arg_prot_len args)
             True) = Inr (ps ! i)"
      by (simp add: nth_sets)
    ultimately show ?thesis by blast
  qed
  have ordered: "map fst test_dic = take n names" if "distinct (take n names)"
  proof -
    from that have "store_all kvs [] = [] @ kvs"
      by (intro store_all_fresh) (simp_all add: keys_kvs)
    then show ?thesis
      by (simp add: dic keys_kvs flip: kvs_def)
  qed
  from keys dist entry ordered get_params_run(5) [OF run] show ?thesis
    by blast
qed

text \<open>
  The claim as stated fails where a name repeats: two positions named \<^verbatim>\<open>t\<close> leave one
  entry, fewer than the shortest list has positions.
\<close>

theorem get_params_test_sets_counterexample:
  "snd (get_params example_files decimal_float exact_num decimal_int
     (get_args example_literal (example_cmdline\<lparr>c_test_name := Some [''t'', ''t'']\<rparr>))) =
   Inr (example_parsed, [(''t'', example_parsed)],
        \<lparr>trp_n_epoch = 10, trp_batch_size = 32\<rparr>,
        \<lparr>tp_drug_vecs = [''fp1''], tp_drug_lens = None, tp_prot_vec = ''seq'', tp_prot_len = 2500\<rparr>,
        \<lparr>tp_drug_vecs = [''fp1''], tp_drug_lens = None, tp_prot_vec = ''seq'', tp_prot_len = 2500,
         mp_drug_layers_list = [[100, 50, 10]], mp_protein_layers_list = [[64]],
         mp_fc_layers_list = [[32, 16]], mp_learning_rate = 1 / 10000, mp_decay = 0,
         mp_activation = None, mp_dropout = 1 / 5, mp_model_output = None\<rparr>,
        None) \<and>
   length [(''t'', example_parsed)] <
     min (min (length [''t'', ''t'']) (length [''dti.csv'', ''dti.csv'']))
         (min (length [''drug.csv'', ''drug.csv'', ''drug.csv''])
              (length [''protein.csv'', ''protein.csv'']))"
  by (simp add: params_defs example_test_run)

text \<open>
  The example command line: three names against two interaction paths give the two
  entries \<^verbatim>\<open>t1\<close> and \<^verbatim>\<open>t2\<close>.
\<close>

theorem get_params_test_sets_witness:
  "snd (get_params example_files decimal_float exact_num decimal_int
     (get_args example_literal example_cmdline)) =
   Inr (example_parsed, [(''t1'', example_parsed), (''t2'', example_parsed)],
        \<lparr>trp_n_epoch = 10, trp_batch_size = 32\<rparr>,
        \<lparr>tp_drug_vecs = [''fp1''], tp_drug_lens = None, tp_prot_vec = ''seq'', tp_prot_len = 2500\<rparr>,
        \<lparr>tp_drug_vecs = [''fp1''], tp_drug_lens = None, tp_prot_vec = ''seq'', tp_prot_len = 2500,
         mp_drug_layers_list = [[100, 50, 10]], mp_protein_layers_list = [[64]],
         mp_fc_layers_list = [[32, 16]], mp_learning_rate = 1 / 10000, mp_decay = 0,
         mp_activation = None, mp_dropout = 1 / 5, mp_model_output = None\<rparr>,
        None) \<and>
   arg_test_name (get_args example_literal example_cmdline) = Some [''t1'', ''t2'', ''t3''] \<and>
   arg_test_dti_dir (get_args example_literal example_cmdline) = Some [''dti.csv'', ''dti.csv''] \<and>
   arg_test_drug_dir (get_args example_literal example_cmdline) =
     Some [''drug.csv'', ''drug.csv'', ''drug.csv''] \<and>
   arg_test_protein_dir (get_args example_literal example_cmdline) =
     Some [''protein.csv'', ''protein.csv''] \<and>
   distinct (take 2 [''t1'', ''t2'', ''t3'']) \<and>
   map fst [(''t1'', example_parsed), (''t2'', example_parsed)] = take 2 [''t1'', ''t2'', ''t3''] \<and>
   map_of [(''t1'', example_parsed), (''t2'', example_parsed)] ''t2'' = Some example_parsed \<and>
   snd (parse_data example_files decimal_float exact_num ''dti.csv'' ''drug.csv'' ''protein.csv''
     [''fp1''] None ''seq'' 2500 True) = Inr example_parsed"
proof -
  let ?args = "get_args example_literal example_cmdline"
  have lists: "arg_test_name ?args = Some [''t1'', ''t2'', ''t3'']"
    "arg_test_dti_dir ?args = Some [''dti.csv'', ''dti.csv'']"
    "arg_test_drug_dir ?args = Some [''drug.csv'', ''drug.csv'', ''drug.csv'']"
    "arg_test_protein_dir ?args = Some [''protein.csv'', ''protein.csv'']"
    by (simp_all add: get_args_def example_cmdline_def)
  have n: "(2::nat) = min (min (length [''t1'', ''t2'', ''t3'']) (length [''dti.csv'', ''dti.csv'']))
      (min (length [''drug.csv'', ''drug.csv'', ''drug.csv''])
           (length [''protein.csv'', ''protein.csv'']))"
    by simp
  have dist: "distinct (take 2 [''t1'', ''t2'', ''t3''])"
    by (simp add: numeral_2_eq_2)
  from get_params_test_sets [OF example_params_run lists n] dist
  have "map fst [(''t1'', example_parsed), (''t2'', example_parsed)] =
      take 2 [''t1'', ''t2'', ''t3'']"
    by blast
  with lists dist show ?thesis
    by (simp add: example_params_run example_test_run)
qed

text \<open>
  C10. When one of the three layer-list options or of the four test-set options is
  omitted, its field of the namespace is \<open>None\<close> and \<open>get_params\<close> raises; with the drug
  layer list omitted it raises \<^verbatim>\<open>TypeError\<close> before it prints or reads anything.
\<close>

theorem get_params_omitted_lists:
  assumes "c_drug_layers_list cl = None \<or> c_protein_layers_list cl = None \<or>
     c_fc_layers_list cl = None \<or> c_test_name cl = None \<or> c_test_dti_dir cl = None \<or>
     c_test_drug_dir cl = None \<or> c_test_protein_dir cl = None"
  shows "(arg_drug_layers_list (get_args float_literal cl) = None \<or>
      arg_protein_layers_list (get_args float_literal cl) = None \<or>
      arg_fc_layers_list (get_args float_literal cl) = None \<or>
      arg_test_name (get_args float_literal cl) = None \<or>
      arg_test_dti_dir (get_args float_literal cl) = None \<or>
      arg_test_drug_dir (get_args float_literal cl) = None \<or>
      arg_test_protein_dir (get_args float_literal cl) = None) \<and>
     (\<exists>e. snd (get_params files to_float num to_int (get_args float_literal cl)) = Inl e) \<and>
     (c_drug_layers_list cl = None \<longrightarrow>
        get_params files to_float num to_int (get_args float_literal cl) = ([], Inl TypeError))"
proof (intro conjI impI)
  from assms show "arg_drug_layers_list (get_args float_literal cl) = None \<or>
      arg_protein_layers_list (get_args float_literal cl) = None \<or>
      arg_fc_layers_list (get_args float_literal cl) = None \<or>
      arg_test_name (get_args float_literal cl) = None \<or>
      arg_test_dti_dir (get_args float_literal cl) = None \<or>
      arg_test_drug_dir (get_args float_literal cl) = None \<or>
      arg_test_protein_dir (get_args float_literal cl) = None"
    by (simp add: get_args_def)
next
  let ?args = "get_args float_literal cl"
  show "\<exists>e. snd (get_params files to_float num to_int ?args) = Inl e"
  proof (rule ccontr)
    assume "\<not> ?thesis"
    then obtain train_dic test_dic train_params type_params model_params output_file where
      run: "snd (get_params files to_float num to_int ?args) =
        Inr (train_dic, test_dic, train_params, type_params, model_params, output_file)"
      by (cases "snd (get_params files to_float num to_int ?args)") auto
    from get_params_run(1-3) [OF run] get_params_run(6) [OF run]
    have "arg_drug_layers_list ?args \<noteq> None" "arg_protein_layers_list ?args \<noteq> None"
      "arg_fc_layers_list ?args \<noteq> None" "arg_test_name ?args \<noteq> None"
      "arg_test_dti_dir ?args \<noteq> None" "arg_test_drug_dir ?args \<noteq> None"
      "arg_test_protein_dir ?args \<noteq> None"
      by (auto simp: layers_list_eq_Inr zip4_eq_Inr)
    with assms show False
      by (auto simp: get_args_def)
  qed
next
  assume "c_drug_layers_list cl = None"
  then show "get_params files to_float num to_int (get_args float_literal cl) = ([], Inl TypeError)"
    by (simp add: get_params_def get_args_def layers_list_def lift_def)
qed

text \<open>The example command line without \<^verbatim>\<open>--test-name\<close>.\<close>

theorem get_params_omitted_lists_witness:
  "c_test_name (example_cmdline\<lparr>c_test_name := None\<rparr>) = None \<and>
   arg_test_name (get_args example_literal (example_cmdline\<lparr>c_test_name := None\<rparr>)) = None \<and>
   snd (get_params example_files decimal_float exact_num decimal_int
     (get_args example_literal (example_cmdline\<lparr>c_test_name := None\<rparr>))) = Inl TypeError"
proof -
  have omitted: "c_drug_layers_list (example_cmdline\<lparr>c_test_name := None\<rparr>) = None \<or>
     c_protein_layers_list (example_cmdline\<lparr>c_test_name := None\<rparr>) = None \<or>
     c_fc_layers_list (example_cmdline\<lparr>c_test_name := None\<rparr>) = None \<or>
     c_test_name (example_cmdline\<lparr>c_test_name := None\<rparr>) = None \<or>
     c_test_dti_dir (example_cmdline\<lparr>c_test_name := None\<rparr>) = None \<or>
     c_test_drug_dir (example_cmdline\<lparr>c_test_name := None\<rparr>) = None \<or>
     c_test_protein_dir (example_cmdline\<lparr>c_test_name := None\<rparr>) = None"
    by simp
  from get_params_omitted_lists [OF omitted, of example_literal example_files decimal_float
      exact_num decimal_int]
  have "\<exists>e. snd (get_params example_files decimal_float exact_num decimal_int
     (get_args example_literal (example_cmdline\<lparr>c_test_name := None\<rparr>))) = Inl e"
    by blast
  then show ?thesis
    by (simp add: params_defs example_test_run)
qed

section \<open>The result writer\<close>

lemmas writer_defs = write_results_def set_labels_def set_column_def squeeze_def
  concat_columns_def pad_def lift_def emit_def

text \<open>
  For the test set A with predicted [0.1, 0.9] and label [0, 1], the table written has the
  columns (A, predicted) and (A, label) with these values in this order.
\<close>

lemma write_results_two_rows:
  "write_results [(''A'', \<lparr>pr_predicted = [1 / 10, 9 / 10], pr_label = [0, 1 :: real]\<rparr>)]
     (Some ''out.csv'') =
   ([Printed (''Prediction is completed.'' @ [CHR 0x0A]), Printed ''save to out.csv'',
     To_csv ''out.csv'' [((''A'', ''predicted''), [Some (1 / 10), Some (9 / 10)]),
                         ((''A'', ''label''), [Some 0, Some 1])]], Inr ())"
  by (simp add: writer_defs)

text \<open>Without an output path, or with the empty string for one, nothing is written.\<close>

lemma write_results_no_path:
  "write_results [(''A'', \<lparr>pr_predicted = [1 / 10, 9 / 10], pr_label = [0, 1 :: real]\<rparr>)] None =
     ([Printed (''Prediction is completed.'' @ [CHR 0x0A])], Inr ()) \<and>
   write_results [(''A'', \<lparr>pr_predicted = [1 / 10, 9 / 10], pr_label = [0, 1 :: real]\<rparr>)]
     (Some []) = ([Printed (''Prediction is completed.'' @ [CHR 0x0A])], Inr ())"
  by (simp add: writer_defs)

text \<open>With no test set and an output path, labelling the columns raises.\<close>

lemma write_results_no_test_set:
  "write_results [] (Some ''out.csv'') =
   ([Printed (''Prediction is completed.'' @ [CHR 0x0A]), Printed ''save to out.csv''],
    Inl TypeError)"
  by (simp add: writer_defs)

lemma pad_pad: "k \<le> n \<Longrightarrow> pad n (pad k c) = pad n c"
  by (auto simp: pad_def replicate_add [symmetric])

lemma length_pad: "length (pad n c) = max n (length c)"
  by (auto simp: pad_def)

lemma fold_max: "fold max ns (k::nat) = max k (fold max ns 0)"
proof (induction ns arbitrary: k)
  case Nil
  show ?case by simp
next
  case (Cons n ns)
  show ?case
    using Cons.IH [of "max n k"] Cons.IH [of "max n 0"] by (simp add: max.assoc max.commute)
qed

lemma longest_Cons:
  "longest ((name, p) # rest) = max (length (pr_predicted p)) (longest rest)"
  using fold_max [of _ "length (pr_predicted p)"] by (simp add: longest_def)

lemma squeeze_Vector: "length a \<noteq> 1 \<Longrightarrow> squeeze a = Vector a"
  by (cases a rule: list.exhaust; cases "tl a") (auto simp: squeeze_def split: list.splits)

lemma temp_df:
  assumes "well_shaped p"
  shows "and_then (set_column (0, []) (squeeze (pr_predicted p)))
           (\<lambda>temp_df. and_then (set_column temp_df (squeeze (pr_label p))) f) =
         f (length (pr_predicted p), [map Some (pr_predicted p), map Some (pr_label p)])"
  using assms by (auto simp: well_shaped_def squeeze_Vector set_column_def)

lemma result_loop_well_shaped:
  assumes "\<forall>x\<in>set tp. well_shaped (snd x)" and "\<forall>c\<in>set cs. length c = n"
  shows "result_loop tp (n, cs) ls =
     Inr ((max n (longest tp),
           map (pad (max n (longest tp))) cs @
           concat (map (\<lambda>(name, p). [pad (max n (longest tp)) (map Some (pr_predicted p)),
                                     pad (max n (longest tp)) (map Some (pr_label p))]) tp)),
          ls @ concat (map (\<lambda>(name, p). [(name, ''predicted''), (name, ''label'')]) tp))"
  using assms
proof (induction tp arbitrary: n cs ls)
  case Nil
  then show ?case
    by (simp add: longest_def pad_def map_idI)
next
  case (Cons x tp)
  obtain name p where x: "x = (name, p)" by (cases x)
  from Cons.prems x have ws: "well_shaped p" by simp
  let ?len = "length (pr_predicted p)"
  let ?k = "max n ?len"
  let ?cs = "map (pad ?k) cs @ [pad ?k (map Some (pr_predicted p)), pad ?k (map Some (pr_label p))]"
  have acc: "concat_columns (n, cs) (?len, [map Some (pr_predicted p), map Some (pr_label p)]) =
      (?k, ?cs)"
    by (simp add: concat_columns_def Let_def)
  from ws Cons.prems(2) have lens: "\<forall>c\<in>set ?cs. length c = ?k"
    by (auto simp: length_pad well_shaped_def)
  from Cons.prems(1) have rest: "\<forall>x\<in>set tp. well_shaped (snd x)" by simp
  have m: "max ?k (longest tp) = max n (longest ((name, p) # tp))"
    by (simp add: longest_Cons max.assoc)
  have pp: "pad (max n (longest ((name, p) # tp))) (pad ?k c) =
      pad (max n (longest ((name, p) # tp))) c" for c :: "'a column"
    by (rule pad_pad) (simp add: m [symmetric])
  show ?case
    unfolding x result_loop.simps temp_df [OF ws] acc
    by (simp add: Cons.IH [OF rest lens] m pp o_def x)
qed

text \<open>
  For well-shaped test sets, at least one, and an output path, the wide table is written.
\<close>

lemma write_results_well_shaped:
  assumes "\<forall>x\<in>set test_predicted. well_shaped (snd x)" and "test_predicted \<noteq> []"
    and "path \<noteq> []"
  shows "write_results test_predicted (Some path) =
     ([Printed (''Prediction is completed.'' @ [CHR 0x0A]), Printed (''save to '' @ path),
       To_csv path (wide_table test_predicted)], Inr ())"
proof -
  have loop: "result_loop test_predicted (0, []) [] =
     Inr ((longest test_predicted,
           concat (map (\<lambda>(name, p). [pad (longest test_predicted) (map Some (pr_predicted p)),
              pad (longest test_predicted) (map Some (pr_label p))]) test_predicted)),
          concat (map (\<lambda>(name, p). [(name, ''predicted''), (name, ''label'')]) test_predicted))"
    using result_loop_well_shaped [OF assms(1), of "[]" 0 "[]"] by simp
  have zipped: "zip (concat (map (\<lambda>(name, p). [(name, ''predicted''), (name, ''label'')]) tp))
      (concat (map (\<lambda>(name, p). [pad m (map Some (pr_predicted p)),
              pad m (map Some (pr_label p))]) tp)) =
      concat (map (\<lambda>(name, p).
       [((name, ''predicted''), pad m (map Some (pr_predicted p))),
        ((name, ''label''), pad m (map Some (pr_label p)))]) tp)"
    for tp :: "(string \<times> 'a prediction) list" and m
    by (induction tp) auto
  have nonempty: "concat (map (\<lambda>(name, p). [(name, ''predicted''), (name, ''label'')])
      test_predicted) \<noteq> []"
    using assms(2) by (cases test_predicted) auto
  have len: "length (concat (map (\<lambda>(name, p). [(name, ''predicted''), (name, ''label'')]) tp)) =
      length (concat (map (\<lambda>(name, p). [pad m (map Some (pr_predicted p)),
              pad m (map Some (pr_label p))]) tp))"
    for tp :: "(string \<times> 'a prediction) list" and m
    by (induction tp) auto
  show ?thesis
    using assms(3) nonempty len [of test_predicted "longest test_predicted"]
    by (simp add: write_results_def loop lift_def emit_def set_labels_def zipped wide_table_def)
qed

text \<open>
  C7. The claim does not hold of the code for a test set of a single interaction:
  \<^verbatim>\<open>np.squeeze\<close> makes scalars of its two arrays, the scalars are repeated along the rows
  of a frame that has none, and the table is written with its two labelled columns and
  no row. The predicted value \<open>x\<close> and the label \<open>y\<close> are not in it.
\<close>

theorem write_results_single_row:
  "write_results [(name, \<lparr>pr_predicted = [x], pr_label = [y]\<rparr>)] (Some ''out.csv'') =
   ([Printed (''Prediction is completed.'' @ [CHR 0x0A]), Printed ''save to out.csv'',
     To_csv ''out.csv'' [((name, ''predicted''), []), ((name, ''label''), [])]], Inr ())"
  by (simp add: writer_defs)

end
